theory Spec2Isabelle
  imports Main
begin

section \<open>JavaScript values and the runtime operations the program relies on\<close>

text \<open>
  The server actions handle values whose shape is decided at run time: parsed response
  bodies, the objects a step stores in its \<open>data\<close> field, and whatever an upstream
  error body carries under \<open>message\<close>. They are modelled by one datatype of
  JavaScript values. A number stands for a JavaScript number that is a safe integer
  (magnitude below \<open>2^53\<close>: HTTP statuses, numeric ids); the program does nothing with
  a number but test its truthiness and print it. An object is the association list of
  its own properties.
\<close>

datatype jsval =
    Undefined
  | Null
  | Bool bool
  | Num int
  | Str string
  | Arr "jsval list"
  | Obj "(string \<times> jsval) list"

text \<open>
  A thrown value is either an \<open>Error\<close> object, of which the handlers read the
  \<open>message\<close>, or something else, for which \<open>error instanceof Error\<close> is false.
\<close>

datatype thrown = Thrown_Error string | Thrown_Other

text \<open>Truthiness, as tested by \<open>!x\<close>, \<open>if (x)\<close> and \<open>x || y\<close>.\<close>

fun truthy :: "jsval \<Rightarrow> bool" where
  "truthy Undefined = False"
| "truthy Null = False"
| "truthy (Bool b) = b"
| "truthy (Num n) = (n \<noteq> 0)"
| "truthy (Str s) = (s \<noteq> [])"
| "truthy (Arr xs) = True"
| "truthy (Obj kvs) = True"

definition js_or :: "jsval \<Rightarrow> jsval \<Rightarrow> jsval" where
  "js_or a b = (if truthy a then a else b)"

text \<open>
  The property read \<open>v.k\<close>. Reading a property of \<open>null\<close> or \<open>undefined\<close>
  throws a \<open>TypeError\<close>; on an object it yields the own property or \<open>undefined\<close>;
  on the other values it yields \<open>undefined\<close>, since none of the property names this
  program reads (\<open>message\<close>, \<open>id\<close>, \<open>properties\<close>, \<open>email\<close>, \<open>firstname\<close>,
  \<open>lastname\<close>, \<open>pipeline\<close>, \<open>dealstage\<close>, \<open>name\<close>, \<open>data\<close>, \<open>error\<close>) is
  inherited from a prototype.
\<close>

definition type_error_read :: "string \<Rightarrow> string \<Rightarrow> thrown" where
  "type_error_read what k =
     Thrown_Error (''Cannot read properties of '' @ what @ '' (reading '' @ [CHR 0x27] @ k @ [CHR 0x27] @ '')'')"

fun get_prop :: "jsval \<Rightarrow> string \<Rightarrow> thrown + jsval" where
  "get_prop Undefined k = Inl (type_error_read ''undefined'' k)"
| "get_prop Null k = Inl (type_error_read ''null'' k)"
| "get_prop (Obj kvs) k = Inr (case map_of kvs k of None \<Rightarrow> Undefined | Some v \<Rightarrow> v)"
| "get_prop v k = Inr Undefined"

text \<open>The optional chain \<open>v?.k\<close>: \<open>undefined\<close> when \<open>v\<close> is \<open>null\<close> or \<open>undefined\<close>.\<close>

fun opt_prop :: "jsval \<Rightarrow> string \<Rightarrow> jsval" where
  "opt_prop Undefined k = Undefined"
| "opt_prop Null k = Undefined"
| "opt_prop (Obj kvs) k = (case map_of kvs k of None \<Rightarrow> Undefined | Some v \<Rightarrow> v)"
| "opt_prop v k = Undefined"

text \<open>
  Decimal printing of a number, as a template literal does for a safe integer. (Beyond
  that range JavaScript rounds the digits, and from \<open>10^21\<close> on it prints in exponent
  form; a fraction has no counterpart here. None of this reaches a step's success or the
  flow's control: only the wording of a message or of a URL.)
\<close>

definition digit_char :: "nat \<Rightarrow> char" where
  "digit_char d = ''0123456789'' ! d"

fun show_nat :: "nat \<Rightarrow> string" where
  "show_nat n = (if n < 10 then [digit_char n] else show_nat (n div 10) @ [digit_char (n mod 10)])"

declare show_nat.simps [simp del]

text \<open>
  The string conversion of a template literal \<open>`${v}`\<close>. An array prints its elements
  joined by commas, with \<open>null\<close> and \<open>undefined\<close> elements empty. A parsed object
  prints as \<open>[object Object]\<close> through the inherited \<open>toString\<close>; when it has an own
  property \<open>toString\<close> (never a function in parsed JSON) no conversion yields a
  primitive and the conversion throws a \<open>TypeError\<close>.
\<close>

fun to_string :: "jsval \<Rightarrow> thrown + string"
and join_elems :: "jsval list \<Rightarrow> thrown + string" where
  "to_string Undefined = Inr ''undefined''"
| "to_string Null = Inr ''null''"
| "to_string (Bool b) = Inr (if b then ''true'' else ''false'')"
| "to_string (Num n) = Inr (if n < 0 then ''-'' @ show_nat (nat (- n)) else show_nat (nat n))"
| "to_string (Str s) = Inr s"
| "to_string (Arr xs) = join_elems xs"
| "to_string (Obj kvs) =
     (if ''toString'' \<in> set (map fst kvs)
      then Inl (Thrown_Error ''Cannot convert object to primitive value'')
      else Inr ''[object Object]'')"
| "join_elems [] = Inr []"
| "join_elems (x # xs) =
     (case (if x = Undefined \<or> x = Null then Inr [] else to_string x) of
        Inl e \<Rightarrow> Inl e
      | Inr a \<Rightarrow>
          (if xs = [] then Inr a
           else (case join_elems xs of Inl e \<Rightarrow> Inl e | Inr b \<Rightarrow> Inr (a @ '','' @ b))))"

text \<open>
  The destructuring \<open>const { k1, k2 } = v\<close>: it throws a \<open>TypeError\<close> on \<open>null\<close> and
  \<open>undefined\<close>, and reads the two properties otherwise.
\<close>

definition type_error_destructure :: "string \<Rightarrow> string \<Rightarrow> thrown" where
  "type_error_destructure k what =
     Thrown_Error (''Cannot destructure property '' @ [CHR 0x27] @ k @ [CHR 0x27] @ '' of ''
                   @ [CHR 0x27] @ ''(intermediate value)'' @ [CHR 0x27] @ '' as it is '' @ what @ ''.'')"

fun destructure :: "jsval \<Rightarrow> string \<Rightarrow> string \<Rightarrow> thrown + jsval \<times> jsval" where
  "destructure Undefined k1 k2 = Inl (type_error_destructure k1 ''undefined'')"
| "destructure Null k1 k2 = Inl (type_error_destructure k1 ''null'')"
| "destructure v k1 k2 = Inr (opt_prop v k1, opt_prop v k2)"

text \<open>The handlers' \<open>error instanceof Error ? error.message : fallback\<close>.\<close>

fun error_message :: "thrown \<Rightarrow> string \<Rightarrow> jsval" where
  "error_message (Thrown_Error m) fallback = Str m"
| "error_message Thrown_Other fallback = Str fallback"

section \<open>Configuration, the network and the trace of a run\<close>

text \<open>
  Process configuration: an environment variable is a string or absent
  (\<open>process.env.X\<close> is then \<open>undefined\<close>).
\<close>

record env =
  HUBSPOT_ACCESS_TOKEN :: "string option"
  RESEND_API_KEY :: "string option"

fun env_var :: "string option \<Rightarrow> jsval" where
  "env_var None = Undefined"
| "env_var (Some s) = Str s"

record HubSpotContactData =
  email :: string
  firstName :: string
  lastName :: string

record dealData =
  deal_id :: jsval
  deal_name :: jsval

text \<open>
  A request handed to \<open>fetch\<close>. The body is the object given to \<open>JSON.stringify\<close>.
  A response has a status, from which \<open>response.ok\<close> is derived, and a body that
  \<open>response.json()\<close> either parses or rejects.
\<close>

record request =
  http_method :: string
  url :: string
  headers :: "(string \<times> string) list"
  body :: "jsval option"

record response =
  status :: nat
  json :: "thrown + jsval"

definition ok :: "response \<Rightarrow> bool" where
  "ok r = (200 \<le> status r \<and> status r \<le> 299)"

record email_message =
  from_addr :: string
  to_addr :: string
  subject :: string
  html :: string

text \<open>
  The world outside the process: what \<open>fetch\<close> does with a request (it rejects or
  resolves to a response), what the mail client's \<open>emails.send\<close> does with a message
  for a client built with a given key (it rejects or resolves to a value, by the
  client's contract an object with \<open>data\<close> and \<open>error\<close>), and the clock's ISO
  timestamp. The mail client is code from outside the repository, so what its
  constructor \<open>new Resend(apiKey)\<close> does with a key (it returns a client or throws)
  belongs to the world as well. Every theorem quantifies over the world.

  The client's module is linked into the application (the test-mail action imports it
  statically), so the dynamic \<open>import("resend")\<close> at the head of the mail step yields
  the loaded module.
\<close>

record world =
  fetch :: "request \<Rightarrow> thrown + response"
  new_Resend :: "jsval \<Rightarrow> thrown + unit"
  send :: "jsval \<Rightarrow> email_message \<Rightarrow> thrown + jsval"
  now_iso :: string

text \<open>
  A run is observed through its trace: the entry of each step function with its
  arguments, and each network call, in program order.
\<close>

datatype event =
    Enter_createContact HubSpotContactData
  | Enter_createDeal string string
  | Enter_associateDealToContact jsval jsval
  | Enter_sendConfirmationEmail string HubSpotContactData dealData
  | Fetch request
  | Send jsval email_message

fun is_network :: "event \<Rightarrow> bool" where
  "is_network (Fetch r) = True"
| "is_network (Send k m) = True"
| "is_network e = False"

fun is_step_entry :: "event \<Rightarrow> bool" where
  "is_step_entry (Fetch r) = False"
| "is_step_entry (Send k m) = False"
| "is_step_entry e = True"

section \<open>The four steps\<close>

text \<open>
  \<open>StepResult\<close>: the \<open>message\<close> is declared a string, but on an upstream error it
  is whatever truthy value the error body carries under \<open>message\<close>, so it is a
  JavaScript value here. \<open>data\<close> is optional.
\<close>

record StepResult =
  step :: string
  success :: bool
  message :: jsval
  data :: "jsval option"

definition getAccessToken :: "env \<Rightarrow> jsval" where
  "getAccessToken env = env_var (HUBSPOT_ACCESS_TOKEN env)"

text \<open>
  Each step is an async function with a \<open>try\<close> block and a \<open>catch\<close> that returns a
  failed \<open>StepResult\<close>. In the first three steps the \<open>try\<close> block holds everything
  but the read of the access token. The \<open>_try\<close> function is the \<open>try\<close> block: it
  yields the events it emitted and either the thrown value or the returned result.
\<close>

definition createContact_try ::
  "jsval \<Rightarrow> world \<Rightarrow> HubSpotContactData \<Rightarrow> event list \<times> (thrown + StepResult)" where
  "createContact_try accessToken w formData =
     (case to_string accessToken of
        Inl e \<Rightarrow> ([], Inl e)
      | Inr token \<Rightarrow>
          (let req = \<lparr>http_method = ''POST'',
                       url = ''https://api.hubapi.com/crm/v3/objects/contacts'',
                       headers = [(''Content-Type'', ''application/json''),
                                  (''Authorization'', ''Bearer '' @ token)],
                       body = Some (Obj [(''properties'',
                                Obj [(''email'', Str (email formData)),
                                     (''firstname'', Str (firstName formData)),
                                     (''lastname'', Str (lastName formData))])])\<rparr>
           in ([Fetch req],
               case fetch w req of
                 Inl e \<Rightarrow> Inl e
               | Inr response \<Rightarrow>
                   (case json response of
                      Inl e \<Rightarrow> Inl e
                    | Inr d \<Rightarrow>
                        if \<not> ok response then
                          (case get_prop d ''message'' of
                             Inl e \<Rightarrow> Inl e
                           | Inr m \<Rightarrow>
                               Inr \<lparr>step = ''Create Contact'', success = False,
                                    message = js_or m (Str (''HubSpot API error: '' @ show_nat (status response))),
                                    data = Some d\<rparr>)
                        else
                          (case get_prop d ''id'' of
                             Inl e \<Rightarrow> Inl e
                           | Inr i \<Rightarrow>
                               (case to_string i of
                                  Inl e \<Rightarrow> Inl e
                                | Inr id_text \<Rightarrow>
                                    (case get_prop d ''properties'' of
                                       Inl e \<Rightarrow> Inl e
                                     | Inr props \<Rightarrow>
                                         Inr \<lparr>step = ''Create Contact'', success = True,
                                              message = Str (''Contact created (ID: '' @ id_text @ '')''),
                                              data = Some (Obj [(''id'', i),
                                                       (''email'', opt_prop props ''email''),
                                                       (''firstName'', opt_prop props ''firstname''),
                                                       (''lastName'', opt_prop props ''lastname'')])\<rparr>)))))))"

definition createContact ::
  "env \<Rightarrow> world \<Rightarrow> HubSpotContactData \<Rightarrow> event list \<times> (thrown + StepResult)" where
  "createContact env w formData =
     (let accessToken = getAccessToken env
      in case createContact_try accessToken w formData of
           (evs, Inr result) \<Rightarrow> (Enter_createContact formData # evs, Inr result)
         | (evs, Inl error) \<Rightarrow>
             (Enter_createContact formData # evs,
              Inr \<lparr>step = ''Create Contact'', success = False,
                   message = error_message error ''Failed to create contact'',
                   data = None\<rparr>))"

definition createDeal_try ::
  "jsval \<Rightarrow> world \<Rightarrow> string \<Rightarrow> event list \<times> (thrown + StepResult)" where
  \<open>createDeal_try accessToken w dealName =
     (case to_string accessToken of
        Inl e \<Rightarrow> ([], Inl e)
      | Inr token \<Rightarrow>
          (let req = \<lparr>http_method = ''POST'',
                       url = ''https://api.hubapi.com/crm/v3/objects/deals'',
                       headers = [(''Content-Type'', ''application/json''),
                                  (''Authorization'', ''Bearer '' @ token)],
                       body = Some (Obj [(''properties'',
                                Obj [(''dealname'', Str dealName),
                                     (''pipeline'', Str ''default''),
                                     (''dealstage'', Str ''appointmentscheduled''),
                                     (''amount'', Str ''0'')])])\<rparr>
           in ([Fetch req],
               case fetch w req of
                 Inl e \<Rightarrow> Inl e
               | Inr response \<Rightarrow>
                   (case json response of
                      Inl e \<Rightarrow> Inl e
                    | Inr d \<Rightarrow>
                        if \<not> ok response then
                          (case get_prop d ''message'' of
                             Inl e \<Rightarrow> Inl e
                           | Inr m \<Rightarrow>
                               Inr \<lparr>step = ''Create Deal'', success = False,
                                    message = js_or m (Str (''HubSpot API error: '' @ show_nat (status response))),
                                    data = Some d\<rparr>)
                        else
                          (case get_prop d ''id'' of
                             Inl e \<Rightarrow> Inl e
                           | Inr i \<Rightarrow>
                               (case to_string i of
                                  Inl e \<Rightarrow> Inl e
                                | Inr id_text \<Rightarrow>
                                    (case get_prop d ''properties'' of
                                       Inl e \<Rightarrow> Inl e
                                     | Inr props \<Rightarrow>
                                         Inr \<lparr>step = ''Create Deal'', success = True,
                                              message = Str (''Deal created (ID: '' @ id_text @ '', Name: "'' @ dealName @ ''")''),
                                              data = Some (Obj [(''id'', i),
                                                       (''name'', Str dealName),
                                                       (''pipeline'', opt_prop props ''pipeline''),
                                                       (''dealstage'', opt_prop props ''dealstage'')])\<rparr>)))))))\<close>

definition createDeal ::
  "env \<Rightarrow> world \<Rightarrow> string \<Rightarrow> string \<Rightarrow> event list \<times> (thrown + StepResult)" where
  "createDeal env w first_name last_name =
     (let accessToken = getAccessToken env;
          dealName = ''Diagnostic - '' @ first_name @ '' '' @ last_name
      in case createDeal_try accessToken w dealName of
           (evs, Inr result) \<Rightarrow> (Enter_createDeal first_name last_name # evs, Inr result)
         | (evs, Inl error) \<Rightarrow>
             (Enter_createDeal first_name last_name # evs,
              Inr \<lparr>step = ''Create Deal'', success = False,
                   message = error_message error ''Failed to create deal'',
                   data = None\<rparr>))"

text \<open>
  The association step builds the URL from the two ids inside the \<open>try\<close> block, reads
  the body only on a status outside 200..299, and there replaces a body that
  \<open>response.json()\<close> rejects by the empty object (\<open>.catch(() => ({}))\<close>).
\<close>

definition association_request :: "string \<Rightarrow> string \<Rightarrow> string \<Rightarrow> request" where
  "association_request token deal_text contact_text =
     \<lparr>http_method = ''PUT'',
      url = ''https://api.hubapi.com/crm/v3/objects/deals/'' @ deal_text
            @ ''/associations/contacts/'' @ contact_text @ ''/deal_to_contact'',
      headers = [(''Authorization'', ''Bearer '' @ token)],
      body = None\<rparr>"

definition associateDealToContact_try ::
  "jsval \<Rightarrow> world \<Rightarrow> jsval \<Rightarrow> jsval \<Rightarrow> event list \<times> (thrown + StepResult)" where
  "associateDealToContact_try accessToken w dealId contactId =
     (case to_string dealId of
        Inl e \<Rightarrow> ([], Inl e)
      | Inr deal_text \<Rightarrow>
     (case to_string contactId of
        Inl e \<Rightarrow> ([], Inl e)
      | Inr contact_text \<Rightarrow>
     (case to_string accessToken of
        Inl e \<Rightarrow> ([], Inl e)
      | Inr token \<Rightarrow>
          (let req = association_request token deal_text contact_text
           in ([Fetch req],
               case fetch w req of
                 Inl e \<Rightarrow> Inl e
               | Inr response \<Rightarrow>
                   if \<not> ok response then
                     (let d = (case json response of Inl e \<Rightarrow> Obj [] | Inr v \<Rightarrow> v)
                      in case get_prop d ''message'' of
                           Inl e \<Rightarrow> Inl e
                         | Inr m \<Rightarrow>
                             Inr \<lparr>step = ''Associate Deal to Contact'', success = False,
                                  message = js_or m (Str (''HubSpot API error: '' @ show_nat (status response))),
                                  data = Some d\<rparr>)
                   else
                     Inr \<lparr>step = ''Associate Deal to Contact'', success = True,
                          message = Str (''Deal '' @ deal_text @ '' associated to Contact '' @ contact_text),
                          data = Some (Obj [(''dealId'', dealId), (''contactId'', contactId)])\<rparr>)))))"

definition associateDealToContact ::
  "env \<Rightarrow> world \<Rightarrow> jsval \<Rightarrow> jsval \<Rightarrow> event list \<times> (thrown + StepResult)" where
  "associateDealToContact env w dealId contactId =
     (let accessToken = getAccessToken env
      in case associateDealToContact_try accessToken w dealId contactId of
           (evs, Inr result) \<Rightarrow> (Enter_associateDealToContact dealId contactId # evs, Inr result)
         | (evs, Inl error) \<Rightarrow>
             (Enter_associateDealToContact dealId contactId # evs,
              Inr \<lparr>step = ''Associate Deal to Contact'', success = False,
                   message = error_message error ''Failed to associate deal to contact'',
                   data = None\<rparr>))"

text \<open>
  The confirmation mail's HTML is a template literal with six interpolations: the
  contact's first name, last name and address, the deal's name and id, and the
  timestamp. The fixed text between them:
\<close>

definition html_part0 :: string where
  \<open>html_part0 =
     ''\<newline>'' @
     ''        <div style="font-family: Arial, sans-serif; max-width: 600px; margin: 0 auto; padding: 20px; background: #1f2937; color: #f3f4f6;">\<newline>'' @
     ''          <div style="text-align: center; margin-bottom: 30px;">\<newline>'' @
     ''            <h1 style="color: #818cf8; margin: 0;">\<newline>'' @
     ''              <span style="color: #818cf8;">Quanta</span><span style="color: #a78bfa;">Lynk</span>\<newline>'' @
     ''            </h1>\<newline>'' @
     ''            <p style="color: #9ca3af; margin-top: 5px;">Diagnostic Results</p>\<newline>'' @
     ''          </div>\<newline>'' @
     ''\<newline>'' @
     ''          <div style="background: #374151; border-radius: 8px; padding: 20px; margin-bottom: 20px;">\<newline>'' @
     ''            <h2 style="color: #10b981; margin-top: 0; font-size: 18px;">'' @
     [CHR 0xE2, CHR 0x9C, CHR 0x93] @
     '' Diagnostic Complete</h2>\<newline>'' @
     ''            <p style="color: #d1d5db; margin-bottom: 0;">\<newline>'' @
     ''              Your diagnostic has been processed successfully. Below are your results.\<newline>'' @
     ''            </p>\<newline>'' @
     ''          </div>\<newline>'' @
     ''\<newline>'' @
     ''          <div style="background: #374151; border-radius: 8px; padding: 20px; margin-bottom: 20px;">\<newline>'' @
     ''            <h3 style="color: #f97316; margin-top: 0; font-size: 16px;">Contact Information</h3>\<newline>'' @
     ''            <table style="width: 100%; color: #d1d5db;">\<newline>'' @
     ''              <tr>\<newline>'' @
     ''                <td style="padding: 8px 0; color: #9ca3af;">Name:</td>\<newline>'' @
     ''                <td style="padding: 8px 0; text-align: right;">''\<close>

definition html_part1 :: string where
  \<open>html_part1 =
     '' ''\<close>

definition html_part2 :: string where
  \<open>html_part2 =
     ''</td>\<newline>'' @
     ''              </tr>\<newline>'' @
     ''              <tr>\<newline>'' @
     ''                <td style="padding: 8px 0; color: #9ca3af;">Email:</td>\<newline>'' @
     ''                <td style="padding: 8px 0; text-align: right;">''\<close>

definition html_part3 :: string where
  \<open>html_part3 =
     ''</td>\<newline>'' @
     ''              </tr>\<newline>'' @
     ''            </table>\<newline>'' @
     ''          </div>\<newline>'' @
     ''\<newline>'' @
     ''          <div style="background: #374151; border-radius: 8px; padding: 20px; margin-bottom: 20px;">\<newline>'' @
     ''            <h3 style="color: #818cf8; margin-top: 0; font-size: 16px;">Deal Created</h3>\<newline>'' @
     ''            <table style="width: 100%; color: #d1d5db;">\<newline>'' @
     ''              <tr>\<newline>'' @
     ''                <td style="padding: 8px 0; color: #9ca3af;">Deal Name:</td>\<newline>'' @
     ''                <td style="padding: 8px 0; text-align: right;">''\<close>

definition html_part4 :: string where
  \<open>html_part4 =
     ''</td>\<newline>'' @
     ''              </tr>\<newline>'' @
     ''              <tr>\<newline>'' @
     ''                <td style="padding: 8px 0; color: #9ca3af;">Deal ID:</td>\<newline>'' @
     ''                <td style="padding: 8px 0; text-align: right; font-family: monospace;">''\<close>

definition html_part5 :: string where
  \<open>html_part5 =
     ''</td>\<newline>'' @
     ''              </tr>\<newline>'' @
     ''              <tr>\<newline>'' @
     ''                <td style="padding: 8px 0; color: #9ca3af;">Status:</td>\<newline>'' @
     ''                <td style="padding: 8px 0; text-align: right;"><span style="background: #10b981; color: white; padding: 2px 8px; border-radius: 4px; font-size: 12px;">Active</span></td>\<newline>'' @
     ''              </tr>\<newline>'' @
     ''            </table>\<newline>'' @
     ''          </div>\<newline>'' @
     ''\<newline>'' @
     ''          <div style="text-align: center; padding: 20px; color: #6b7280; font-size: 12px;">\<newline>'' @
     ''            <p>This is an automated message from QuantaLynk Diagnostic Tool.</p>\<newline>'' @
     ''            <p>Sent at: ''\<close>

definition html_part6 :: string where
  \<open>html_part6 =
     ''</p>\<newline>'' @
     ''          </div>\<newline>'' @
     ''        </div>\<newline>'' @
     ''      ''\<close>

text \<open>
  The mail step returns before its \<open>try\<close> block when the key is absent or empty.
  Otherwise it constructs the client, still before the \<open>try\<close> block: a constructor
  that throws makes the step reject. Inside the \<open>try\<close> block the message is built
  (the deal's name and id are converted to strings, which may throw) and handed to the
  client; the resolved value is destructured into \<open>data\<close> and \<open>error\<close>.
\<close>

definition sendConfirmationEmail_try ::
  "jsval \<Rightarrow> world \<Rightarrow> string \<Rightarrow> HubSpotContactData \<Rightarrow> dealData \<Rightarrow> event list \<times> (thrown + StepResult)" where
  "sendConfirmationEmail_try apiKey w toEmail contactData deal_data =
     (case to_string (deal_name deal_data) of
        Inl e \<Rightarrow> ([], Inl e)
      | Inr name_text \<Rightarrow>
     (case to_string (deal_id deal_data) of
        Inl e \<Rightarrow> ([], Inl e)
      | Inr id_text \<Rightarrow>
          (let msg = \<lparr>from_addr = ''QuantaLynk Diagnostic <noreply@updates.quantalynk.com>'',
                       to_addr = toEmail,
                       subject = ''QuantaLynk Diagnostic - Results for '' @ firstName contactData,
                       html = html_part0 @ firstName contactData @ html_part1 @ lastName contactData
                              @ html_part2 @ email contactData @ html_part3 @ name_text
                              @ html_part4 @ id_text @ html_part5 @ now_iso w @ html_part6\<rparr>
           in ([Send apiKey msg],
               case send w apiKey msg of
                 Inl e \<Rightarrow> Inl e
               | Inr res \<Rightarrow>
                   (case destructure res ''data'' ''error'' of
                      Inl e \<Rightarrow> Inl e
                    | Inr (d, err) \<Rightarrow>
                        if truthy err then
                          (case get_prop err ''message'' of
                             Inl e \<Rightarrow> Inl e
                           | Inr m \<Rightarrow>
                               Inr \<lparr>step = ''Send Confirmation Email'', success = False,
                                    message = js_or m (Str ''Failed to send email''),
                                    data = Some err\<rparr>)
                        else
                          Inr \<lparr>step = ''Send Confirmation Email'', success = True,
                               message = Str (''Confirmation email sent to '' @ toEmail),
                               data = Some (Obj [(''id'', opt_prop d ''id''),
                                                 (''sentTo'', Str toEmail)])\<rparr>)))))"

definition sendConfirmationEmail ::
  "env \<Rightarrow> world \<Rightarrow> string \<Rightarrow> HubSpotContactData \<Rightarrow> dealData \<Rightarrow> event list \<times> (thrown + StepResult)" where
  "sendConfirmationEmail env w toEmail contactData deal_data =
     (let apiKey = env_var (RESEND_API_KEY env)
      in if \<not> truthy apiKey then
           ([Enter_sendConfirmationEmail toEmail contactData deal_data],
            Inr \<lparr>step = ''Send Confirmation Email'', success = False,
                 message = Str ''Resend API key is not configured'',
                 data = None\<rparr>)
         else
           (case new_Resend w apiKey of
              Inl e \<Rightarrow> ([Enter_sendConfirmationEmail toEmail contactData deal_data], Inl e)
            | Inr resend \<Rightarrow>
                (case sendConfirmationEmail_try apiKey w toEmail contactData deal_data of
                   (evs, Inr result) \<Rightarrow>
                     (Enter_sendConfirmationEmail toEmail contactData deal_data # evs, Inr result)
                 | (evs, Inl error) \<Rightarrow>
                     (Enter_sendConfirmationEmail toEmail contactData deal_data # evs,
                      Inr \<lparr>step = ''Send Confirmation Email'', success = False,
                           message = error_message error ''Failed to send email'',
                           data = None\<rparr>))))"

section \<open>The flow\<close>

text \<open>
  \<open>DiagnosticFlowResult\<close>. Its \<open>success\<close> and \<open>message\<close> fields are named
  \<open>flow_success\<close> and \<open>flow_message\<close> here, apart from those of \<open>StepResult\<close>; the
  fields of the summary's \<open>contact\<close> carry a prefix for the same reason. The summary's
  \<open>deal\<close> has the shape of \<open>dealData\<close>.
\<close>

record contact_summary =
  contact_id :: jsval
  contact_email :: string
  contact_firstName :: string
  contact_lastName :: string

record flow_summary =
  contact :: contact_summary
  deal :: dealData
  association :: string
  emailSent :: bool
  emailId :: jsval

record DiagnosticFlowResult =
  flow_success :: bool
  flow_message :: string
  steps :: "StepResult list"
  summary :: "flow_summary option"

text \<open>The optional chain \<open>result.data?.k\<close> on a step result.\<close>

definition data_prop :: "StepResult \<Rightarrow> string \<Rightarrow> jsval" where
  "data_prop r k = (case data r of None \<Rightarrow> Undefined | Some v \<Rightarrow> opt_prop v k)"

text \<open>
  \<open>runDiagnosticFlow\<close> awaits the four steps in turn; a step that rejects makes the
  flow reject (\<open>Inl\<close>). The trace is the concatenation of the steps' traces.
\<close>

definition runDiagnosticFlow ::
  "env \<Rightarrow> world \<Rightarrow> HubSpotContactData \<Rightarrow> string \<Rightarrow> event list \<times> (thrown + DiagnosticFlowResult)" where
  "runDiagnosticFlow env w formData notificationEmail =
     (let accessToken = getAccessToken env
      in if \<not> truthy accessToken then
           ([], Inr \<lparr>flow_success = False,
                     flow_message = ''HubSpot access token is not configured'',
                     steps = [], summary = None\<rparr>)
         else
           (case createContact env w formData of
              (t1, Inl e) \<Rightarrow> (t1, Inl e)
            | (t1, Inr contactResult) \<Rightarrow>
                if \<not> success contactResult then
                  (t1, Inr \<lparr>flow_success = False,
                            flow_message = ''Flow failed at: Create Contact'',
                            steps = [contactResult], summary = None\<rparr>)
                else
                  (let contactId = data_prop contactResult ''id'';
                       contactData = \<lparr>email = email formData,
                                      firstName = firstName formData,
                                      lastName = lastName formData\<rparr>
                   in case createDeal env w (firstName formData) (lastName formData) of
                        (t2, Inl e) \<Rightarrow> (t1 @ t2, Inl e)
                      | (t2, Inr dealResult) \<Rightarrow>
                          if \<not> success dealResult then
                            (t1 @ t2, Inr \<lparr>flow_success = False,
                                           flow_message = ''Flow failed at: Create Deal'',
                                           steps = [contactResult, dealResult], summary = None\<rparr>)
                          else
                            (let dealId = data_prop dealResult ''id'';
                                 dealName = data_prop dealResult ''name''
                             in case associateDealToContact env w dealId contactId of
                                  (t3, Inl e) \<Rightarrow> (t1 @ t2 @ t3, Inl e)
                                | (t3, Inr associationResult) \<Rightarrow>
                                    if \<not> success associationResult then
                                      (t1 @ t2 @ t3,
                                       Inr \<lparr>flow_success = False,
                                            flow_message = ''Flow failed at: Associate Deal to Contact'',
                                            steps = [contactResult, dealResult, associationResult],
                                            summary = None\<rparr>)
                                    else
                                      (case sendConfirmationEmail env w notificationEmail contactData
                                              \<lparr>deal_id = dealId, deal_name = dealName\<rparr> of
                                         (t4, Inl e) \<Rightarrow> (t1 @ t2 @ t3 @ t4, Inl e)
                                       | (t4, Inr emailResult) \<Rightarrow>
                                           (let all_steps = [contactResult, dealResult,
                                                             associationResult, emailResult];
                                                allSuccessful = list_all success all_steps
                                            in (t1 @ t2 @ t3 @ t4,
                                                Inr \<lparr>flow_success = allSuccessful,
                                                     flow_message =
                                                       (if allSuccessful
                                                        then ''Full diagnostic flow completed successfully!''
                                                        else ''Flow completed with some errors''),
                                                     steps = all_steps,
                                                     summary = Some
                                                       \<lparr>contact = \<lparr>contact_id = contactId,
                                                                   contact_email = email contactData,
                                                                   contact_firstName = firstName contactData,
                                                                   contact_lastName = lastName contactData\<rparr>,
                                                        deal = \<lparr>deal_id = dealId, deal_name = dealName\<rparr>,
                                                        association =
                                                          (if success associationResult
                                                           then ''success'' else ''failed''),
                                                        emailSent = success emailResult,
                                                        emailId = data_prop emailResult ''id''\<rparr>\<rparr>)))))))"

text \<open>The entry kept for callers that want the first step only.\<close>

record contact_only_result =
  only_success :: bool
  only_message :: jsval
  only_data :: "jsval option"

definition createHubSpotContact ::
  "env \<Rightarrow> world \<Rightarrow> HubSpotContactData \<Rightarrow> event list \<times> (thrown + contact_only_result)" where
  "createHubSpotContact env w formData =
     (case createContact env w formData of
        (t, Inl e) \<Rightarrow> (t, Inl e)
      | (t, Inr result) \<Rightarrow>
          (t, Inr \<lparr>only_success = success result, only_message = message result,
                   only_data = data result\<rparr>))"

section \<open>The webhook store\<close>

text \<open>
  The module-level array \<open>webhookStorage\<close> is the state, passed in and returned. A
  POST carries what \<open>request.json()\<close> yields, and the environment supplies the fresh
  identifier (\<open>crypto.randomUUID()\<close>) and the timestamp. A handler runs from its last
  \<open>await\<close> to its return without interruption, so requests are handled one at a time.
\<close>

record WebhookEntry =
  entry_id :: string
  payload :: jsval
  receivedAt :: string

record post_request =
  request_json :: "thrown + jsval"
  random_uuid :: string
  request_time :: string

record http_response =
  http_status :: nat
  http_body :: jsval

record get_response =
  get_success :: bool
  webhooks :: "WebhookEntry list"
  count :: nat

definition MAX_WEBHOOKS :: nat where
  "MAX_WEBHOOKS = 5"

definition POST :: "WebhookEntry list \<Rightarrow> post_request \<Rightarrow> WebhookEntry list \<times> http_response" where
  "POST webhookStorage request =
     (case request_json request of
        Inr body_value \<Rightarrow>
          (let entry = \<lparr>entry_id = random_uuid request, payload = body_value,
                         receivedAt = request_time request\<rparr>;
               unshifted = entry # webhookStorage;
               stored = (if length unshifted > MAX_WEBHOOKS then butlast unshifted else unshifted)
           in (stored,
               \<lparr>http_status = 200,
                http_body = Obj [(''success'', Bool True),
                                 (''message'', Str ''Webhook received successfully''),
                                 (''id'', Str (entry_id entry)),
                                 (''receivedAt'', Str (receivedAt entry))]\<rparr>))
      | Inl error \<Rightarrow>
          (webhookStorage,
           \<lparr>http_status = 400,
            http_body = Obj [(''success'', Bool False),
                             (''message'', Str ''Failed to process webhook''),
                             (''error'', error_message error ''Unknown error'')]\<rparr>))"

definition GET :: "WebhookEntry list \<Rightarrow> get_response" where
  "GET webhookStorage =
     \<lparr>get_success = True, webhooks = webhookStorage, count = length webhookStorage\<rparr>"

text \<open>The store after a sequence of POSTs, handled in order.\<close>

fun posts :: "WebhookEntry list \<Rightarrow> post_request list \<Rightarrow> WebhookEntry list" where
  "posts store [] = store"
| "posts store (r # rs) = posts (fst (POST store r)) rs"

text \<open>
  The entries of the accepted requests (those whose body parsed), in arrival order:
  the yardstick against which the store's content is stated.
\<close>

fun accepted :: "post_request list \<Rightarrow> WebhookEntry list" where
  "accepted [] = []"
| "accepted (r # rs) =
     (case request_json r of
        Inr body_value \<Rightarrow>
          \<lparr>entry_id = random_uuid r, payload = body_value, receivedAt = request_time r\<rparr> # accepted rs
      | Inl error \<Rightarrow> accepted rs)"

text \<open>A request whose body parsed.\<close>

definition parsed :: "post_request \<Rightarrow> bool" where
  "parsed r = (case request_json r of Inr body_value \<Rightarrow> True | Inl error \<Rightarrow> False)"

section \<open>Reading a trace\<close>

text \<open>The entries of the association step, and the events of the mail step.\<close>

fun is_association_entry :: "event \<Rightarrow> bool" where
  "is_association_entry (Enter_associateDealToContact d c) = True"
| "is_association_entry e = False"

fun is_email_event :: "event \<Rightarrow> bool" where
  "is_email_event (Enter_sendConfirmationEmail t c d) = True"
| "is_email_event (Send k m) = True"
| "is_email_event e = False"

section \<open>Example configurations and worlds\<close>

text \<open>
  Concrete inputs on which the theorems below are exercised: a configuration with both
  credentials, a form, and a world whose \<open>fetch\<close> answers the three CRM requests with
  given outcomes, whose mail client is constructed from any key and answers with a given
  outcome.
\<close>

definition example_env :: env where
  "example_env = \<lparr>HUBSPOT_ACCESS_TOKEN = Some ''pat-na1-demo'', RESEND_API_KEY = Some ''re_demo''\<rparr>"

definition example_form :: HubSpotContactData where
  "example_form = \<lparr>email = ''ada@example.com'', firstName = ''Ada'', lastName = ''Lovelace''\<rparr>"

definition scripted_fetch ::
  "(thrown + response) \<Rightarrow> (thrown + response) \<Rightarrow> (thrown + response) \<Rightarrow> request \<Rightarrow> thrown + response" where
  "scripted_fetch contact_outcome deal_outcome association_outcome req =
     (if http_method req = ''PUT'' then association_outcome
      else if url req = ''https://api.hubapi.com/crm/v3/objects/contacts'' then contact_outcome
      else deal_outcome)"

definition example_world ::
  "(thrown + response) \<Rightarrow> (thrown + response) \<Rightarrow> (thrown + response) \<Rightarrow> (thrown + jsval) \<Rightarrow> world" where
  "example_world contact_outcome deal_outcome association_outcome mail_outcome =
     \<lparr>fetch = scripted_fetch contact_outcome deal_outcome association_outcome,
      new_Resend = (\<lambda>key. Inr ()),
      send = (\<lambda>key msg. mail_outcome),
      now_iso = ''2024-05-01T12:00:00.000Z''\<rparr>"

definition contact_created :: "thrown + response" where
  "contact_created =
     Inr \<lparr>status = 201,
          json = Inr (Obj [(''id'', Str ''101''),
                           (''properties'', Obj [(''email'', Str ''ada@example.com''),
                                                 (''firstname'', Str ''Ada''),
                                                 (''lastname'', Str ''Lovelace'')])])\<rparr>"

definition contact_conflict :: "thrown + response" where
  "contact_conflict =
     Inr \<lparr>status = 409,
          json = Inr (Obj [(''status'', Str ''error''),
                           (''message'', Str ''Contact already exists'')])\<rparr>"

definition deal_created :: "thrown + response" where
  "deal_created =
     Inr \<lparr>status = 201,
          json = Inr (Obj [(''id'', Str ''202''),
                           (''properties'', Obj [(''pipeline'', Str ''default''),
                                                 (''dealstage'', Str ''appointmentscheduled'')])])\<rparr>"

definition deal_unreachable :: "thrown + response" where
  "deal_unreachable = Inl (Thrown_Error ''fetch failed'')"

definition association_made :: "thrown + response" where
  "association_made = Inr \<lparr>status = 200, json = Inr (Obj [])\<rparr>"

definition association_refused_html :: "thrown + response" where
  "association_refused_html =
     Inr \<lparr>status = 502, json = Inl (Thrown_Error ''Unexpected token < in JSON at position 0'')\<rparr>"

definition association_refused_null :: "thrown + response" where
  "association_refused_null = Inr \<lparr>status = 500, json = Inr Null\<rparr>"

definition mail_accepted :: "thrown + jsval" where
  "mail_accepted = Inr (Obj [(''data'', Obj [(''id'', Str ''em-1'')]), (''error'', Null)])"

definition mail_refused :: "thrown + jsval" where
  "mail_refused =
     Inr (Obj [(''data'', Null),
               (''error'', Obj [(''name'', Str ''validation_error''),
                                (''message'', Str ''The domain is not verified'')])])"

text \<open>
  A configuration whose mail key was pasted with a line break inside it, and a world
  whose three CRM calls succeed and whose mail client refuses such a key when it is
  constructed (as a client does that builds its authorization header there: a header
  value may not contain a line feed).
\<close>

definition mistyped_env :: env where
  "mistyped_env = example_env\<lparr>RESEND_API_KEY := Some (''re_demo'' @ [CHR 0x0A] @ ''re_old'')\<rparr>"

definition key_refused :: thrown where
  "key_refused = Thrown_Error ''invalid header value''"

definition refusing_world :: world where
  "refusing_world =
     (example_world contact_created deal_created association_made mail_accepted)
       \<lparr>new_Resend :=
          (\<lambda>key. case key of
                    Str s \<Rightarrow> if CHR 0x0A \<in> set s then Inl key_refused else Inr ()
                  | _ \<Rightarrow> Inr ())\<rparr>"

definition association_refused_json :: "thrown + response" where
  "association_refused_json =
     Inr \<lparr>status = 404,
          json = Inr (Obj [(''status'', Str ''error''),
                           (''message'', Str ''Object not found'')])\<rparr>"

text \<open>The step results and flow results these worlds lead to.\<close>

definition contact_ok_result :: StepResult where
  "contact_ok_result =
     \<lparr>step = ''Create Contact'', success = True,
      message = Str ''Contact created (ID: 101)'',
      data = Some (Obj [(''id'', Str ''101''), (''email'', Str ''ada@example.com''),
                        (''firstName'', Str ''Ada''), (''lastName'', Str ''Lovelace'')])\<rparr>"

definition contact_conflict_result :: StepResult where
  "contact_conflict_result =
     \<lparr>step = ''Create Contact'', success = False,
      message = Str ''Contact already exists'',
      data = Some (Obj [(''status'', Str ''error''),
                        (''message'', Str ''Contact already exists'')])\<rparr>"

definition deal_ok_result :: StepResult where
  \<open>deal_ok_result =
     \<lparr>step = ''Create Deal'', success = True,
      message = Str ''Deal created (ID: 202, Name: "Diagnostic - Ada Lovelace")'',
      data = Some (Obj [(''id'', Str ''202''), (''name'', Str ''Diagnostic - Ada Lovelace''),
                        (''pipeline'', Str ''default''),
                        (''dealstage'', Str ''appointmentscheduled'')])\<rparr>\<close>

definition deal_unreachable_result :: StepResult where
  "deal_unreachable_result =
     \<lparr>step = ''Create Deal'', success = False, message = Str ''fetch failed'', data = None\<rparr>"

definition association_ok_result :: StepResult where
  "association_ok_result =
     \<lparr>step = ''Associate Deal to Contact'', success = True,
      message = Str ''Deal 202 associated to Contact 101'',
      data = Some (Obj [(''dealId'', Str ''202''), (''contactId'', Str ''101'')])\<rparr>"

definition association_html_result :: StepResult where
  "association_html_result =
     \<lparr>step = ''Associate Deal to Contact'', success = False,
      message = Str ''HubSpot API error: 502'', data = Some (Obj [])\<rparr>"

definition association_json_result :: StepResult where
  "association_json_result =
     \<lparr>step = ''Associate Deal to Contact'', success = False,
      message = Str ''Object not found'',
      data = Some (Obj [(''status'', Str ''error''), (''message'', Str ''Object not found'')])\<rparr>"

definition association_null_result :: StepResult where
  "association_null_result =
     \<lparr>step = ''Associate Deal to Contact'', success = False,
      message = Str (''Cannot read properties of null (reading '' @ [CHR 0x27] @ ''message''
                     @ [CHR 0x27] @ '')''),
      data = None\<rparr>"

definition mail_ok_result :: StepResult where
  "mail_ok_result =
     \<lparr>step = ''Send Confirmation Email'', success = True,
      message = Str ''Confirmation email sent to ops@example.com'',
      data = Some (Obj [(''id'', Str ''em-1''), (''sentTo'', Str ''ops@example.com'')])\<rparr>"

definition mail_refused_result :: StepResult where
  "mail_refused_result =
     \<lparr>step = ''Send Confirmation Email'', success = False,
      message = Str ''The domain is not verified'',
      data = Some (Obj [(''name'', Str ''validation_error''),
                        (''message'', Str ''The domain is not verified'')])\<rparr>"

definition example_summary :: "bool \<Rightarrow> jsval \<Rightarrow> flow_summary" where
  "example_summary sent mail_id =
     \<lparr>contact = \<lparr>contact_id = Str ''101'', contact_email = ''ada@example.com'',
                 contact_firstName = ''Ada'', contact_lastName = ''Lovelace''\<rparr>,
      deal = \<lparr>deal_id = Str ''202'', deal_name = Str ''Diagnostic - Ada Lovelace''\<rparr>,
      association = ''success'', emailSent = sent, emailId = mail_id\<rparr>"

definition example_deal :: dealData where
  "example_deal = \<lparr>deal_id = Str ''202'', deal_name = Str ''Diagnostic - Ada Lovelace''\<rparr>"

definition example_post :: "nat \<Rightarrow> post_request" where
  "example_post n =
     \<lparr>request_json = Inr (Obj [(''n'', Num (int n))]),
      random_uuid = ''uuid-'' @ show_nat n,
      request_time = ''2024-05-01T12:00:0'' @ show_nat n @ ''.000Z''\<rparr>"

section \<open>Unfolding sets\<close>

lemmas example_defs =
  example_env_def example_form_def scripted_fetch_def example_world_def contact_created_def
  contact_conflict_def deal_created_def deal_unreachable_def association_made_def
  association_refused_html_def association_refused_null_def association_refused_json_def
  mail_accepted_def mail_refused_def mistyped_env_def refusing_world_def

lemmas result_defs =
  contact_ok_result_def contact_conflict_result_def deal_ok_result_def
  deal_unreachable_result_def association_ok_result_def association_html_result_def
  association_json_result_def association_null_result_def mail_ok_result_def
  mail_refused_result_def example_summary_def example_deal_def

lemmas step_defs =
  createContact_def createContact_try_def createDeal_def createDeal_try_def
  associateDealToContact_def associateDealToContact_try_def
  sendConfirmationEmail_def sendConfirmationEmail_try_def
  association_request_def getAccessToken_def ok_def js_or_def data_prop_def Let_def

section \<open>What the steps return\<close>

text \<open>The first three steps return a result whatever the world does.\<close>

lemma createContact_returns: "\<exists>t r. createContact env w fd = (t, Inr r)"
  unfolding createContact_def by (simp add: Let_def split: prod.split sum.split)

lemma createDeal_returns: "\<exists>t r. createDeal env w fn ln = (t, Inr r)"
  unfolding createDeal_def by (simp add: Let_def split: prod.split sum.split)

lemma associateDealToContact_returns: "\<exists>t r. associateDealToContact env w d c = (t, Inr r)"
  unfolding associateDealToContact_def by (simp add: Let_def split: prod.split sum.split)

text \<open>
  The mail step returns a result unless the client's constructor throws, which happens
  before its \<open>try\<close> block; then the step rejects with what the constructor threw.
\<close>

lemma sendConfirmationEmail_returns:
  assumes "truthy (env_var (RESEND_API_KEY env)) \<longrightarrow>
             new_Resend w (env_var (RESEND_API_KEY env)) = Inr ()"
  shows "\<exists>t r. sendConfirmationEmail env w to_email cd dd = (t, Inr r)"
  using assms unfolding sendConfirmationEmail_def
  by (simp add: Let_def split: prod.split sum.split)

lemma sendConfirmationEmail_rejects:
  assumes "truthy (env_var (RESEND_API_KEY env))"
    and "new_Resend w (env_var (RESEND_API_KEY env)) = Inl e"
  shows "sendConfirmationEmail env w to_email cd dd =
           ([Enter_sendConfirmationEmail to_email cd dd], Inl e)"
  using assms unfolding sendConfirmationEmail_def by (simp add: Let_def)

lemma createContact_step:
  "createContact env w fd = (t, Inr r) \<Longrightarrow> step r = ''Create Contact''"
  unfolding createContact_def createContact_try_def
  by (auto simp: Let_def split: prod.splits sum.splits if_splits)

lemma createDeal_step:
  "createDeal env w fn ln = (t, Inr r) \<Longrightarrow> step r = ''Create Deal''"
  unfolding createDeal_def createDeal_try_def
  by (auto simp: Let_def split: prod.splits sum.splits if_splits)

lemma associateDealToContact_step:
  "associateDealToContact env w d c = (t, Inr r) \<Longrightarrow> step r = ''Associate Deal to Contact''"
  unfolding associateDealToContact_def associateDealToContact_try_def
  by (auto simp: Let_def split: prod.splits sum.splits if_splits)

lemma sendConfirmationEmail_step:
  "sendConfirmationEmail env w to_email cd dd = (t, Inr r) \<Longrightarrow>
     step r = ''Send Confirmation Email''"
  unfolding sendConfirmationEmail_def sendConfirmationEmail_try_def
  by (auto simp: Let_def split: prod.splits sum.splits if_splits)

lemma snd_eq_pair: "snd p = y \<Longrightarrow> \<exists>t. p = (t, y)"
  by (cases p) simp

lemma to_string_env_var: "\<exists>s. to_string (env_var x) = Inr s"
  by (cases x) simp_all

section \<open>The traces of the steps\<close>

text \<open>A step's trace is its own entry followed by network calls only.\<close>

lemma createContact_trace:
  "\<exists>evs. fst (createContact env w fd) = Enter_createContact fd # evs \<and> list_all is_network evs"
  unfolding createContact_def createContact_try_def
  by (simp add: Let_def split: prod.split sum.split)

lemma createDeal_trace:
  "\<exists>evs. fst (createDeal env w fn ln) = Enter_createDeal fn ln # evs \<and> list_all is_network evs"
  unfolding createDeal_def createDeal_try_def
  by (simp add: Let_def split: prod.split sum.split)

lemma associateDealToContact_trace:
  "\<exists>evs. fst (associateDealToContact env w d c) = Enter_associateDealToContact d c # evs \<and>
         list_all is_network evs"
  unfolding associateDealToContact_def associateDealToContact_try_def
  by (simp add: Let_def split: prod.split sum.split)

lemma sendConfirmationEmail_trace:
  "\<exists>evs. fst (sendConfirmationEmail env w to_email cd dd) =
           Enter_sendConfirmationEmail to_email cd dd # evs \<and> list_all is_network evs"
  unfolding sendConfirmationEmail_def sendConfirmationEmail_try_def
  by (simp add: Let_def split: prod.split sum.split)

lemma network_not_association: "list_all is_network evs \<Longrightarrow> filter is_association_entry evs = []"
proof (induction evs)
  case Nil
  then show ?case by simp
next
  case (Cons e evs)
  then show ?case by (cases e) simp_all
qed

text \<open>The first three steps emit no event of the mail step.\<close>

lemma createContact_no_email: "filter is_email_event (fst (createContact env w fd)) = []"
  unfolding createContact_def createContact_try_def
  by (simp add: Let_def split: prod.split sum.split)

lemma createDeal_no_email: "filter is_email_event (fst (createDeal env w fn ln)) = []"
  unfolding createDeal_def createDeal_try_def
  by (simp add: Let_def split: prod.split sum.split)

lemma associateDealToContact_no_email:
  "filter is_email_event (fst (associateDealToContact env w d c)) = []"
  unfolding associateDealToContact_def associateDealToContact_try_def
  by (simp add: Let_def split: prod.split sum.split)

lemma network_not_entry: "list_all is_network evs \<Longrightarrow> filter is_step_entry evs = []"
proof (induction evs)
  case Nil
  then show ?case by simp
next
  case (Cons e evs)
  then show ?case by (cases e) simp_all
qed

lemma associateDealToContact_request:
  assumes "to_string d = Inr deal_text" and "to_string c = Inr contact_text"
    and "to_string (getAccessToken env) = Inr token"
  shows "fst (associateDealToContact env w d c) =
           [Enter_associateDealToContact d c,
            Fetch (association_request token deal_text contact_text)]"
  unfolding associateDealToContact_def associateDealToContact_try_def
  by (simp add: assms Let_def split: prod.split sum.split)

text \<open>A successful contact or deal step stores an id that prints.\<close>

lemma createContact_id_prints:
  "createContact env w fd = (t, Inr r) \<Longrightarrow> success r \<Longrightarrow>
     \<exists>s. to_string (data_prop r ''id'') = Inr s"
  unfolding createContact_def createContact_try_def data_prop_def
  by (auto simp: Let_def split: prod.splits sum.splits if_splits)

lemma createDeal_id_prints:
  "createDeal env w fn ln = (t, Inr r) \<Longrightarrow> success r \<Longrightarrow>
     \<exists>s. to_string (data_prop r ''id'') = Inr s"
  unfolding createDeal_def createDeal_try_def data_prop_def
  by (auto simp: Let_def split: prod.splits sum.splits if_splits)

section \<open>The flow, exit by exit\<close>

lemma flow_failed_contact:
  assumes tok: "truthy (getAccessToken env)"
    and c: "createContact env w fd = (t1, Inr r1)" and s1: "\<not> success r1"
  shows "runDiagnosticFlow env w fd ne =
           (t1, Inr \<lparr>flow_success = False, flow_message = ''Flow failed at: Create Contact'',
                     steps = [r1], summary = None\<rparr>)"
  unfolding runDiagnosticFlow_def Let_def
  by (simp only: tok c s1 if_False if_True prod.case sum.case simp_thms)

lemma flow_failed_deal:
  assumes tok: "truthy (getAccessToken env)"
    and c: "createContact env w fd = (t1, Inr r1)" and s1: "success r1"
    and d: "createDeal env w (firstName fd) (lastName fd) = (t2, Inr r2)" and s2: "\<not> success r2"
  shows "runDiagnosticFlow env w fd ne =
           (t1 @ t2, Inr \<lparr>flow_success = False, flow_message = ''Flow failed at: Create Deal'',
                          steps = [r1, r2], summary = None\<rparr>)"
  unfolding runDiagnosticFlow_def Let_def
  by (simp only: tok c d s1 s2 if_False if_True prod.case sum.case simp_thms)

lemma flow_failed_association:
  assumes tok: "truthy (getAccessToken env)"
    and c: "createContact env w fd = (t1, Inr r1)" and s1: "success r1"
    and d: "createDeal env w (firstName fd) (lastName fd) = (t2, Inr r2)" and s2: "success r2"
    and a: "associateDealToContact env w (data_prop r2 ''id'') (data_prop r1 ''id'') = (t3, Inr r3)"
    and s3: "\<not> success r3"
  shows "runDiagnosticFlow env w fd ne =
           (t1 @ t2 @ t3,
            Inr \<lparr>flow_success = False,
                 flow_message = ''Flow failed at: Associate Deal to Contact'',
                 steps = [r1, r2, r3], summary = None\<rparr>)"
  unfolding runDiagnosticFlow_def Let_def
  by (simp only: tok c d a s1 s2 s3 if_False if_True prod.case sum.case simp_thms)

lemma flow_completed:
  assumes tok: "truthy (getAccessToken env)"
    and c: "createContact env w fd = (t1, Inr r1)" and s1: "success r1"
    and d: "createDeal env w (firstName fd) (lastName fd) = (t2, Inr r2)" and s2: "success r2"
    and a: "associateDealToContact env w (data_prop r2 ''id'') (data_prop r1 ''id'') = (t3, Inr r3)"
    and s3: "success r3"
    and m: "sendConfirmationEmail env w ne
                \<lparr>email = email fd, firstName = firstName fd, lastName = lastName fd\<rparr>
                \<lparr>deal_id = data_prop r2 ''id'', deal_name = data_prop r2 ''name''\<rparr> = (t4, Inr r4)"
  shows "runDiagnosticFlow env w fd ne =
           (t1 @ t2 @ t3 @ t4,
            Inr \<lparr>flow_success = success r4,
                 flow_message = (if success r4 then ''Full diagnostic flow completed successfully!''
                                 else ''Flow completed with some errors''),
                 steps = [r1, r2, r3, r4],
                 summary = Some
                   \<lparr>contact = \<lparr>contact_id = data_prop r1 ''id'', contact_email = email fd,
                               contact_firstName = firstName fd, contact_lastName = lastName fd\<rparr>,
                    deal = \<lparr>deal_id = data_prop r2 ''id'', deal_name = data_prop r2 ''name''\<rparr>,
                    association = ''success'',
                    emailSent = success r4,
                    emailId = data_prop r4 ''id''\<rparr>\<rparr>)"
  unfolding runDiagnosticFlow_def Let_def
  apply (simp only: tok c d a m s1 s2 s3 if_False prod.case sum.case simp_thms)
  apply (simp only: list.pred_inject s1 s2 s3 simp_thms HubSpotContactData.simps if_True)
  done

lemma flow_email_rejects:
  assumes tok: "truthy (getAccessToken env)"
    and c: "createContact env w fd = (t1, Inr r1)" and s1: "success r1"
    and d: "createDeal env w (firstName fd) (lastName fd) = (t2, Inr r2)" and s2: "success r2"
    and a: "associateDealToContact env w (data_prop r2 ''id'') (data_prop r1 ''id'') = (t3, Inr r3)"
    and s3: "success r3"
    and m: "sendConfirmationEmail env w ne
                \<lparr>email = email fd, firstName = firstName fd, lastName = lastName fd\<rparr>
                \<lparr>deal_id = data_prop r2 ''id'', deal_name = data_prop r2 ''name''\<rparr> = (t4, Inl e)"
  shows "runDiagnosticFlow env w fd ne = (t1 @ t2 @ t3 @ t4, Inl e)"
  unfolding runDiagnosticFlow_def Let_def
  by (simp only: tok c d a m s1 s2 s3 if_False prod.case sum.case simp_thms)

text \<open>The flow with no credential, as an equation.\<close>

lemma flow_unconfigured:
  "\<not> truthy (getAccessToken env) \<Longrightarrow>
     runDiagnosticFlow env w fd ne =
       ([], Inr \<lparr>flow_success = False,
                 flow_message = ''HubSpot access token is not configured'',
                 steps = [], summary = None\<rparr>)"
  unfolding runDiagnosticFlow_def Let_def by (simp only: if_True simp_thms)

text \<open>
  The first three step calls of a run, named: whatever the configuration and the world,
  the calls the flow would make return some results.
\<close>

lemma flow_step_calls:
  obtains t1 r1 t2 r2 t3 r3 where
    "createContact env w fd = (t1, Inr r1)"
    "createDeal env w (firstName fd) (lastName fd) = (t2, Inr r2)"
    "associateDealToContact env w (data_prop r2 ''id'') (data_prop r1 ''id'') = (t3, Inr r3)"
proof -
  obtain t1 r1 where c: "createContact env w fd = (t1, Inr r1)"
    using createContact_returns by blast
  obtain t2 r2 where d: "createDeal env w (firstName fd) (lastName fd) = (t2, Inr r2)"
    using createDeal_returns by blast
  obtain t3 r3 where a:
    "associateDealToContact env w (data_prop r2 ''id'') (data_prop r1 ''id'') = (t3, Inr r3)"
    using associateDealToContact_returns by blast
  from c d a that show thesis by blast
qed

section \<open>The flow's outcomes\<close>

text \<open>
  C4. When the CRM credential is absent from the configuration (the variable is unset,
  or set to the empty string, which the guard treats alike), the flow returns at once
  with \<open>success = false\<close> and an empty step list; its trace is empty, so no step
  function was entered and no network call was made.
\<close>

theorem flow_without_crm_credential:
  assumes "HUBSPOT_ACCESS_TOKEN env = None \<or> HUBSPOT_ACCESS_TOKEN env = Some []"
  shows "runDiagnosticFlow env w fd ne =
           ([], Inr \<lparr>flow_success = False,
                     flow_message = ''HubSpot access token is not configured'',
                     steps = [], summary = None\<rparr>)"
proof -
  from assms have "\<not> truthy (getAccessToken env)"
    unfolding getAccessToken_def by auto
  then show ?thesis by (rule flow_unconfigured)
qed

theorem flow_without_crm_credential_witness:
  "HUBSPOT_ACCESS_TOKEN (example_env\<lparr>HUBSPOT_ACCESS_TOKEN := None\<rparr>) = None \<and>
   runDiagnosticFlow (example_env\<lparr>HUBSPOT_ACCESS_TOKEN := None\<rparr>)
       (example_world contact_created deal_created association_made mail_accepted)
       example_form ''ops@example.com'' =
     ([], Inr \<lparr>flow_success = False,
               flow_message = ''HubSpot access token is not configured'',
               steps = [], summary = None\<rparr>)"
  using flow_without_crm_credential
    [of "example_env\<lparr>HUBSPOT_ACCESS_TOKEN := None\<rparr>"
        "example_world contact_created deal_created association_made mail_accepted"
        example_form "''ops@example.com''"]
  by simp

text \<open>
  C9. When the mail provider's credential is absent from the configuration (unset or
  empty), the mail step returns \<open>success = false\<close>, and its trace holds its own entry
  only: no network call is attempted.
\<close>

theorem email_step_without_credential:
  assumes "RESEND_API_KEY env = None \<or> RESEND_API_KEY env = Some []"
  shows "sendConfirmationEmail env w toEmail cd dd =
           ([Enter_sendConfirmationEmail toEmail cd dd],
            Inr \<lparr>step = ''Send Confirmation Email'', success = False,
                 message = Str ''Resend API key is not configured'', data = None\<rparr>) \<and>
         filter is_network (fst (sendConfirmationEmail env w toEmail cd dd)) = []"
  using assms unfolding sendConfirmationEmail_def by auto

theorem email_step_without_credential_witness:
  "RESEND_API_KEY (example_env\<lparr>RESEND_API_KEY := None\<rparr>) = None \<and>
   snd (sendConfirmationEmail (example_env\<lparr>RESEND_API_KEY := None\<rparr>)
          (example_world contact_created deal_created association_made mail_accepted)
          ''ops@example.com'' example_form
          \<lparr>deal_id = Str ''202'', deal_name = Str ''Diagnostic - Ada Lovelace''\<rparr>) =
     Inr \<lparr>step = ''Send Confirmation Email'', success = False,
          message = Str ''Resend API key is not configured'', data = None\<rparr> \<and>
   filter is_network
     (fst (sendConfirmationEmail (example_env\<lparr>RESEND_API_KEY := None\<rparr>)
          (example_world contact_created deal_created association_made mail_accepted)
          ''ops@example.com'' example_form
          \<lparr>deal_id = Str ''202'', deal_name = Str ''Diagnostic - Ada Lovelace''\<rparr>)) = []"
  using email_step_without_credential
    [of "example_env\<lparr>RESEND_API_KEY := None\<rparr>"
        "example_world contact_created deal_created association_made mail_accepted"
        "''ops@example.com''" example_form
        "\<lparr>deal_id = Str ''202'', deal_name = Str ''Diagnostic - Ada Lovelace''\<rparr>"]
  by simp

text \<open>
  C1. In a run whose four step calls all return \<open>success = true\<close>, the flow's result
  has \<open>success = true\<close>, and its summary has \<open>association = "success"\<close> and
  \<open>emailSent = true\<close>. The step calls are those the flow makes: the contact step on the
  form, the deal step on the form's names, the association step on the ids in the two
  results' data, the mail step on the notification address, the form's fields and the
  deal's id and name.
\<close>

theorem flow_all_steps_succeed:
  assumes "truthy (getAccessToken env)"
    and "snd (createContact env w fd) = Inr r1" and "success r1"
    and "snd (createDeal env w (firstName fd) (lastName fd)) = Inr r2" and "success r2"
    and "snd (associateDealToContact env w (data_prop r2 ''id'') (data_prop r1 ''id'')) = Inr r3"
    and "success r3"
    and "snd (sendConfirmationEmail env w ne
                \<lparr>email = email fd, firstName = firstName fd, lastName = lastName fd\<rparr>
                \<lparr>deal_id = data_prop r2 ''id'', deal_name = data_prop r2 ''name''\<rparr>) = Inr r4"
    and "success r4"
  shows "snd (runDiagnosticFlow env w fd ne) =
          Inr \<lparr>flow_success = True,
               flow_message = ''Full diagnostic flow completed successfully!'',
               steps = [r1, r2, r3, r4],
               summary = Some
                 \<lparr>contact = \<lparr>contact_id = data_prop r1 ''id'', contact_email = email fd,
                             contact_firstName = firstName fd, contact_lastName = lastName fd\<rparr>,
                  deal = \<lparr>deal_id = data_prop r2 ''id'', deal_name = data_prop r2 ''name''\<rparr>,
                  association = ''success'', emailSent = True,
                  emailId = data_prop r4 ''id''\<rparr>\<rparr>"
proof -
  obtain t1 where c: "createContact env w fd = (t1, Inr r1)"
    using snd_eq_pair [OF assms(2)] by auto
  obtain t2 where d: "createDeal env w (firstName fd) (lastName fd) = (t2, Inr r2)"
    using snd_eq_pair [OF assms(4)] by auto
  obtain t3 where a:
    "associateDealToContact env w (data_prop r2 ''id'') (data_prop r1 ''id'') = (t3, Inr r3)"
    using snd_eq_pair [OF assms(6)] by auto
  obtain t4 where m:
    "sendConfirmationEmail env w ne
       \<lparr>email = email fd, firstName = firstName fd, lastName = lastName fd\<rparr>
       \<lparr>deal_id = data_prop r2 ''id'', deal_name = data_prop r2 ''name''\<rparr> = (t4, Inr r4)"
    using snd_eq_pair [OF assms(8)] by auto
  show ?thesis
    by (simp only: flow_completed [OF assms(1) c assms(3) d assms(5) a assms(7) m]
          assms(9) snd_conv if_True)
qed


theorem flow_all_steps_succeed_witness:
  "truthy (getAccessToken example_env) \<and>
   success contact_ok_result \<and> success deal_ok_result \<and>
   success association_ok_result \<and> success mail_ok_result \<and>
   snd (runDiagnosticFlow example_env
          (example_world contact_created deal_created association_made mail_accepted)
          example_form ''ops@example.com'') =
     Inr \<lparr>flow_success = True,
          flow_message = ''Full diagnostic flow completed successfully!'',
          steps = [contact_ok_result, deal_ok_result, association_ok_result, mail_ok_result],
          summary = Some (example_summary True (Str ''em-1''))\<rparr>"
proof -
  let ?w = "example_world contact_created deal_created association_made mail_accepted"
  have tok: "truthy (getAccessToken example_env)"
    by (simp add: getAccessToken_def example_env_def)
  have c: "snd (createContact example_env ?w example_form) = Inr contact_ok_result"
    by (simp add: step_defs example_defs result_defs)
  have d: "snd (createDeal example_env ?w (firstName example_form) (lastName example_form))
             = Inr deal_ok_result"
    by (simp add: step_defs example_defs result_defs)
  have a: "snd (associateDealToContact example_env ?w
                  (data_prop deal_ok_result ''id'') (data_prop contact_ok_result ''id''))
             = Inr association_ok_result"
    by (simp add: step_defs example_defs result_defs)
  have m: "snd (sendConfirmationEmail example_env ?w ''ops@example.com''
                \<lparr>email = email example_form, firstName = firstName example_form,
                 lastName = lastName example_form\<rparr>
                \<lparr>deal_id = data_prop deal_ok_result ''id'',
                 deal_name = data_prop deal_ok_result ''name''\<rparr>) = Inr mail_ok_result"
    by (simp add: step_defs example_defs result_defs)
  have s: "success contact_ok_result" "success deal_ok_result"
    "success association_ok_result" "success mail_ok_result"
    by (simp_all add: result_defs)
  have "snd (runDiagnosticFlow example_env ?w example_form ''ops@example.com'') =
          Inr \<lparr>flow_success = True,
               flow_message = ''Full diagnostic flow completed successfully!'',
               steps = [contact_ok_result, deal_ok_result, association_ok_result, mail_ok_result],
               summary = Some (example_summary True (Str ''em-1''))\<rparr>"
    using flow_all_steps_succeed [OF tok c s(1) d s(2) a s(3) m s(4)]
    by (simp add: data_prop_def result_defs example_form_def)
  with tok s show ?thesis by simp
qed

text \<open>
  C2. In a run whose first three step calls succeed and whose mail step returns
  \<open>success = false\<close>, the flow's result has \<open>success = false\<close>, its message is
  \<open>Flow completed with some errors\<close>, and the summary is present with
  \<open>emailSent = false\<close>.
\<close>

theorem flow_email_step_fails:
  assumes "truthy (getAccessToken env)"
    and "snd (createContact env w fd) = Inr r1" and "success r1"
    and "snd (createDeal env w (firstName fd) (lastName fd)) = Inr r2" and "success r2"
    and "snd (associateDealToContact env w (data_prop r2 ''id'') (data_prop r1 ''id'')) = Inr r3"
    and "success r3"
    and "snd (sendConfirmationEmail env w ne
                \<lparr>email = email fd, firstName = firstName fd, lastName = lastName fd\<rparr>
                \<lparr>deal_id = data_prop r2 ''id'', deal_name = data_prop r2 ''name''\<rparr>) = Inr r4"
    and "\<not> success r4"
  shows "snd (runDiagnosticFlow env w fd ne) =
          Inr \<lparr>flow_success = False,
               flow_message = ''Flow completed with some errors'',
               steps = [r1, r2, r3, r4],
               summary = Some
                 \<lparr>contact = \<lparr>contact_id = data_prop r1 ''id'', contact_email = email fd,
                             contact_firstName = firstName fd, contact_lastName = lastName fd\<rparr>,
                  deal = \<lparr>deal_id = data_prop r2 ''id'', deal_name = data_prop r2 ''name''\<rparr>,
                  association = ''success'', emailSent = False,
                  emailId = data_prop r4 ''id''\<rparr>\<rparr>"
proof -
  obtain t1 where c: "createContact env w fd = (t1, Inr r1)"
    using snd_eq_pair [OF assms(2)] by auto
  obtain t2 where d: "createDeal env w (firstName fd) (lastName fd) = (t2, Inr r2)"
    using snd_eq_pair [OF assms(4)] by auto
  obtain t3 where a:
    "associateDealToContact env w (data_prop r2 ''id'') (data_prop r1 ''id'') = (t3, Inr r3)"
    using snd_eq_pair [OF assms(6)] by auto
  obtain t4 where m:
    "sendConfirmationEmail env w ne
       \<lparr>email = email fd, firstName = firstName fd, lastName = lastName fd\<rparr>
       \<lparr>deal_id = data_prop r2 ''id'', deal_name = data_prop r2 ''name''\<rparr> = (t4, Inr r4)"
    using snd_eq_pair [OF assms(8)] by auto
  show ?thesis
    by (simp only: flow_completed [OF assms(1) c assms(3) d assms(5) a assms(7) m]
          assms(9) snd_conv if_False)
qed

theorem flow_email_step_fails_witness:
  "truthy (getAccessToken example_env) \<and>
   success contact_ok_result \<and> success deal_ok_result \<and>
   success association_ok_result \<and> \<not> success mail_refused_result \<and>
   snd (runDiagnosticFlow example_env
          (example_world contact_created deal_created association_made mail_refused)
          example_form ''ops@example.com'') =
     Inr \<lparr>flow_success = False,
          flow_message = ''Flow completed with some errors'',
          steps = [contact_ok_result, deal_ok_result, association_ok_result, mail_refused_result],
          summary = Some (example_summary False Undefined)\<rparr>"
proof -
  let ?w = "example_world contact_created deal_created association_made mail_refused"
  have tok: "truthy (getAccessToken example_env)"
    by (simp add: getAccessToken_def example_env_def)
  have c: "snd (createContact example_env ?w example_form) = Inr contact_ok_result"
    by (simp add: step_defs example_defs result_defs)
  have d: "snd (createDeal example_env ?w (firstName example_form) (lastName example_form))
             = Inr deal_ok_result"
    by (simp add: step_defs example_defs result_defs)
  have a: "snd (associateDealToContact example_env ?w
                  (data_prop deal_ok_result ''id'') (data_prop contact_ok_result ''id''))
             = Inr association_ok_result"
    by (simp add: step_defs example_defs result_defs)
  have m: "snd (sendConfirmationEmail example_env ?w ''ops@example.com''
                \<lparr>email = email example_form, firstName = firstName example_form,
                 lastName = lastName example_form\<rparr>
                \<lparr>deal_id = data_prop deal_ok_result ''id'',
                 deal_name = data_prop deal_ok_result ''name''\<rparr>) = Inr mail_refused_result"
    by (simp add: step_defs example_defs result_defs)
  have s: "success contact_ok_result" "success deal_ok_result"
    "success association_ok_result" "\<not> success mail_refused_result"
    by (simp_all add: result_defs)
  have "snd (runDiagnosticFlow example_env ?w example_form ''ops@example.com'') =
          Inr \<lparr>flow_success = False,
               flow_message = ''Flow completed with some errors'',
               steps = [contact_ok_result, deal_ok_result, association_ok_result,
                        mail_refused_result],
               summary = Some (example_summary False Undefined)\<rparr>"
    using flow_email_step_fails [OF tok c s(1) d s(2) a s(3) m s(4)]
    by (simp add: data_prop_def result_defs example_form_def)
  with tok s show ?thesis by simp
qed

text \<open>
  C3. When one of the first three step calls returns \<open>success = false\<close>, the flow
  returns at once with \<open>success = false\<close>, the message \<open>Flow failed at:\<close> followed by
  the failing step's name, the step list ending with the failing step's result, and no
  summary. The trace is that of the steps up to the failing one, each of which enters
  one step function only: no later step, the mail step included, is attempted, and the
  trace holds no event of the mail step.
\<close>

theorem flow_aborts_at_failed_step:
  assumes "truthy (getAccessToken env)"
    and "snd (createContact env w fd) = Inr r1"
    and "snd (createDeal env w (firstName fd) (lastName fd)) = Inr r2"
    and "snd (associateDealToContact env w (data_prop r2 ''id'') (data_prop r1 ''id'')) = Inr r3"
  shows "(\<not> success r1 \<longrightarrow>
            runDiagnosticFlow env w fd ne =
              (fst (createContact env w fd),
               Inr \<lparr>flow_success = False, flow_message = ''Flow failed at: '' @ step r1,
                    steps = [r1], summary = None\<rparr>)) \<and>
         (success r1 \<and> \<not> success r2 \<longrightarrow>
            runDiagnosticFlow env w fd ne =
              (fst (createContact env w fd) @ fst (createDeal env w (firstName fd) (lastName fd)),
               Inr \<lparr>flow_success = False, flow_message = ''Flow failed at: '' @ step r2,
                    steps = [r1, r2], summary = None\<rparr>)) \<and>
         (success r1 \<and> success r2 \<and> \<not> success r3 \<longrightarrow>
            runDiagnosticFlow env w fd ne =
              (fst (createContact env w fd) @ fst (createDeal env w (firstName fd) (lastName fd))
                 @ fst (associateDealToContact env w (data_prop r2 ''id'') (data_prop r1 ''id'')),
               Inr \<lparr>flow_success = False, flow_message = ''Flow failed at: '' @ step r3,
                    steps = [r1, r2, r3], summary = None\<rparr>)) \<and>
         step r1 = ''Create Contact'' \<and> step r2 = ''Create Deal'' \<and>
         step r3 = ''Associate Deal to Contact'' \<and>
         filter is_step_entry (fst (createContact env w fd)) = [Enter_createContact fd] \<and>
         filter is_step_entry (fst (createDeal env w (firstName fd) (lastName fd))) =
           [Enter_createDeal (firstName fd) (lastName fd)] \<and>
         filter is_step_entry
             (fst (associateDealToContact env w (data_prop r2 ''id'') (data_prop r1 ''id''))) =
           [Enter_associateDealToContact (data_prop r2 ''id'') (data_prop r1 ''id'')] \<and>
         (\<not> (success r1 \<and> success r2 \<and> success r3) \<longrightarrow>
            filter is_email_event (fst (runDiagnosticFlow env w fd ne)) = [])"
proof -
  let ?c = "createContact env w fd"
  let ?d = "createDeal env w (firstName fd) (lastName fd)"
  let ?a = "associateDealToContact env w (data_prop r2 ''id'') (data_prop r1 ''id'')"
  have c: "?c = (fst ?c, Inr r1)"
    using assms(2) by (simp add: prod_eq_iff)
  have d: "?d = (fst ?d, Inr r2)"
    using assms(3) by (simp add: prod_eq_iff)
  have a: "?a = (fst ?a, Inr r3)"
    using assms(4) by (simp add: prod_eq_iff)
  have n1: "step r1 = ''Create Contact''"
    using c by (rule createContact_step)
  have n2: "step r2 = ''Create Deal''"
    using d by (rule createDeal_step)
  have n3: "step r3 = ''Associate Deal to Contact''"
    using a by (rule associateDealToContact_step)
  have e1: "filter is_step_entry (fst ?c) = [Enter_createContact fd]"
    using createContact_trace [of env w fd] by (auto simp: network_not_entry)
  have e2: "filter is_step_entry (fst ?d) = [Enter_createDeal (firstName fd) (lastName fd)]"
    using createDeal_trace [of env w "firstName fd" "lastName fd"]
    by (auto simp: network_not_entry)
  have e3: "filter is_step_entry (fst ?a) =
              [Enter_associateDealToContact (data_prop r2 ''id'') (data_prop r1 ''id'')]"
    using associateDealToContact_trace [of env w "data_prop r2 ''id''" "data_prop r1 ''id''"]
    by (auto simp: network_not_entry)
  have f1: "\<not> success r1 \<longrightarrow>
              runDiagnosticFlow env w fd ne =
                (fst ?c, Inr \<lparr>flow_success = False, flow_message = ''Flow failed at: '' @ step r1,
                               steps = [r1], summary = None\<rparr>)"
    using flow_failed_contact [OF assms(1) c] by (simp add: n1)
  have f2: "success r1 \<and> \<not> success r2 \<longrightarrow>
              runDiagnosticFlow env w fd ne =
                (fst ?c @ fst ?d,
                 Inr \<lparr>flow_success = False, flow_message = ''Flow failed at: '' @ step r2,
                      steps = [r1, r2], summary = None\<rparr>)"
    using flow_failed_deal [OF assms(1) c _ d] by (simp add: n2)
  have f3: "success r1 \<and> success r2 \<and> \<not> success r3 \<longrightarrow>
              runDiagnosticFlow env w fd ne =
                (fst ?c @ fst ?d @ fst ?a,
                 Inr \<lparr>flow_success = False, flow_message = ''Flow failed at: '' @ step r3,
                      steps = [r1, r2, r3], summary = None\<rparr>)"
    using flow_failed_association [OF assms(1) c _ d _ a] by (simp add: n3)
  have no_mail: "\<not> (success r1 \<and> success r2 \<and> success r3) \<longrightarrow>
                   filter is_email_event (fst (runDiagnosticFlow env w fd ne)) = []"
  proof
    assume fail: "\<not> (success r1 \<and> success r2 \<and> success r3)"
    have quiet: "filter is_email_event (fst ?c) = []" "filter is_email_event (fst ?d) = []"
      "filter is_email_event (fst ?a) = []"
      by (rule createContact_no_email createDeal_no_email associateDealToContact_no_email)+
    from fail consider "\<not> success r1" | "success r1" "\<not> success r2"
      | "success r1" "success r2" "\<not> success r3"
      by blast
    then show "filter is_email_event (fst (runDiagnosticFlow env w fd ne)) = []"
    proof cases
      case 1
      with f1 show ?thesis by (simp add: quiet)
    next
      case 2
      with f2 show ?thesis by (simp add: quiet)
    next
      case 3
      with f3 show ?thesis by (simp add: quiet)
    qed
  qed
  from f1 f2 f3 n1 n2 n3 e1 e2 e3 no_mail show ?thesis
    by (intro conjI)
qed

theorem flow_aborts_at_failed_step_witness:
  "truthy (getAccessToken example_env) \<and>
   \<not> success contact_conflict_result \<and>
   snd (runDiagnosticFlow example_env
          (example_world contact_conflict deal_created association_made mail_accepted)
          example_form ''ops@example.com'') =
     Inr \<lparr>flow_success = False, flow_message = ''Flow failed at: Create Contact'',
          steps = [contact_conflict_result], summary = None\<rparr> \<and>
   filter is_step_entry
     (fst (runDiagnosticFlow example_env
          (example_world contact_conflict deal_created association_made mail_accepted)
          example_form ''ops@example.com'')) = [Enter_createContact example_form] \<and>
   success contact_ok_result \<and> \<not> success deal_unreachable_result \<and>
   snd (runDiagnosticFlow example_env
          (example_world contact_created deal_unreachable association_made mail_accepted)
          example_form ''ops@example.com'') =
     Inr \<lparr>flow_success = False, flow_message = ''Flow failed at: Create Deal'',
          steps = [contact_ok_result, deal_unreachable_result], summary = None\<rparr> \<and>
   filter is_step_entry
     (fst (runDiagnosticFlow example_env
          (example_world contact_created deal_unreachable association_made mail_accepted)
          example_form ''ops@example.com'')) =
     [Enter_createContact example_form, Enter_createDeal ''Ada'' ''Lovelace''] \<and>
   success deal_ok_result \<and> \<not> success association_html_result \<and>
   snd (runDiagnosticFlow example_env
          (example_world contact_created deal_created association_refused_html mail_accepted)
          example_form ''ops@example.com'') =
     Inr \<lparr>flow_success = False, flow_message = ''Flow failed at: Associate Deal to Contact'',
          steps = [contact_ok_result, deal_ok_result, association_html_result],
          summary = None\<rparr> \<and>
   filter is_step_entry
     (fst (runDiagnosticFlow example_env
          (example_world contact_created deal_created association_refused_html mail_accepted)
          example_form ''ops@example.com'')) =
     [Enter_createContact example_form, Enter_createDeal ''Ada'' ''Lovelace'',
      Enter_associateDealToContact (Str ''202'') (Str ''101'')] \<and>
   filter is_email_event
     (fst (runDiagnosticFlow example_env
          (example_world contact_created deal_created association_refused_html mail_accepted)
          example_form ''ops@example.com'')) = []"
proof -
  let ?w1 = "example_world contact_conflict deal_created association_made mail_accepted"
  let ?w2 = "example_world contact_created deal_unreachable association_made mail_accepted"
  let ?w3 = "example_world contact_created deal_created association_refused_html mail_accepted"
  have tok: "truthy (getAccessToken example_env)"
    by (simp add: getAccessToken_def example_env_def)
  have s: "\<not> success contact_conflict_result" "success contact_ok_result"
    "\<not> success deal_unreachable_result" "success deal_ok_result"
    "\<not> success association_html_result"
    by (simp_all add: result_defs)
  have c1: "snd (createContact example_env ?w1 example_form) = Inr contact_conflict_result"
    by (simp add: step_defs example_defs result_defs)
  have d1: "snd (createDeal example_env ?w1 (firstName example_form) (lastName example_form))
              = Inr deal_ok_result"
    by (simp add: step_defs example_defs result_defs)
  have a1: "snd (associateDealToContact example_env ?w1
                   (data_prop deal_ok_result ''id'') (data_prop contact_conflict_result ''id''))
              = Inr \<lparr>step = ''Associate Deal to Contact'', success = True,
                     message = Str ''Deal 202 associated to Contact undefined'',
                     data = Some (Obj [(''dealId'', Str ''202''), (''contactId'', Undefined)])\<rparr>"
    by (simp add: step_defs example_defs result_defs)
  have c2: "snd (createContact example_env ?w2 example_form) = Inr contact_ok_result"
    by (simp add: step_defs example_defs result_defs)
  have d2: "snd (createDeal example_env ?w2 (firstName example_form) (lastName example_form))
              = Inr deal_unreachable_result"
    by (simp add: step_defs example_defs result_defs)
  have a2: "snd (associateDealToContact example_env ?w2
                   (data_prop deal_unreachable_result ''id'') (data_prop contact_ok_result ''id''))
              = Inr \<lparr>step = ''Associate Deal to Contact'', success = True,
                     message = Str ''Deal undefined associated to Contact 101'',
                     data = Some (Obj [(''dealId'', Undefined), (''contactId'', Str ''101'')])\<rparr>"
    by (simp add: step_defs example_defs result_defs)
  have c3: "snd (createContact example_env ?w3 example_form) = Inr contact_ok_result"
    by (simp add: step_defs example_defs result_defs)
  have d3: "snd (createDeal example_env ?w3 (firstName example_form) (lastName example_form))
              = Inr deal_ok_result"
    by (simp add: step_defs example_defs result_defs)
  have a3: "snd (associateDealToContact example_env ?w3
                   (data_prop deal_ok_result ''id'') (data_prop contact_ok_result ''id''))
              = Inr association_html_result"
    by (simp add: step_defs example_defs result_defs show_nat.simps digit_char_def)
  have ids: "data_prop deal_ok_result ''id'' = Str ''202''"
    "data_prop contact_ok_result ''id'' = Str ''101''"
    by (simp_all add: data_prop_def result_defs)
  have names: "firstName example_form = ''Ada''" "lastName example_form = ''Lovelace''"
    by (simp_all add: example_form_def)
  have r1: "snd (runDiagnosticFlow example_env ?w1 example_form ''ops@example.com'') =
              Inr \<lparr>flow_success = False, flow_message = ''Flow failed at: Create Contact'',
                   steps = [contact_conflict_result], summary = None\<rparr> \<and>
            filter is_step_entry
              (fst (runDiagnosticFlow example_env ?w1 example_form ''ops@example.com'')) =
              [Enter_createContact example_form]"
    using flow_aborts_at_failed_step [OF tok c1 d1 a1, of "''ops@example.com''"] s(1)
    by (simp add: contact_conflict_result_def)
  have r2: "snd (runDiagnosticFlow example_env ?w2 example_form ''ops@example.com'') =
              Inr \<lparr>flow_success = False, flow_message = ''Flow failed at: Create Deal'',
                   steps = [contact_ok_result, deal_unreachable_result], summary = None\<rparr> \<and>
            filter is_step_entry
              (fst (runDiagnosticFlow example_env ?w2 example_form ''ops@example.com'')) =
              [Enter_createContact example_form, Enter_createDeal ''Ada'' ''Lovelace'']"
    using flow_aborts_at_failed_step [OF tok c2 d2 a2, of "''ops@example.com''"] s(2,3)
    by (simp add: names)
  have r3: "snd (runDiagnosticFlow example_env ?w3 example_form ''ops@example.com'') =
              Inr \<lparr>flow_success = False,
                   flow_message = ''Flow failed at: Associate Deal to Contact'',
                   steps = [contact_ok_result, deal_ok_result, association_html_result],
                   summary = None\<rparr> \<and>
            filter is_step_entry
              (fst (runDiagnosticFlow example_env ?w3 example_form ''ops@example.com'')) =
              [Enter_createContact example_form, Enter_createDeal ''Ada'' ''Lovelace'',
               Enter_associateDealToContact (Str ''202'') (Str ''101'')] \<and>
            filter is_email_event
              (fst (runDiagnosticFlow example_env ?w3 example_form ''ops@example.com'')) = []"
    using flow_aborts_at_failed_step [OF tok c3 d3 a3, of "''ops@example.com''"] s(2,4,5)
    by (simp add: names ids createContact_no_email createDeal_no_email
          associateDealToContact_no_email)
  from tok s r1 r2 r3 show ?thesis by simp
qed

text \<open>
  C5. In a run whose contact step and deal step succeed, the association step is entered
  once, with the id stored in the deal step's data as deal id and the id stored in the
  contact step's data as contact id; both ids print, and the request it sends is the
  PUT to the URL made of them.
\<close>

theorem association_called_with_returned_ids:
  assumes "truthy (getAccessToken env)"
    and "snd (createContact env w fd) = Inr r1" and "success r1"
    and "snd (createDeal env w (firstName fd) (lastName fd)) = Inr r2" and "success r2"
  shows "filter is_association_entry (fst (runDiagnosticFlow env w fd ne)) =
           [Enter_associateDealToContact (data_prop r2 ''id'') (data_prop r1 ''id'')] \<and>
         (\<exists>token deal_text contact_text.
            to_string (getAccessToken env) = Inr token \<and>
            to_string (data_prop r2 ''id'') = Inr deal_text \<and>
            to_string (data_prop r1 ''id'') = Inr contact_text \<and>
            Fetch (association_request token deal_text contact_text)
              \<in> set (fst (runDiagnosticFlow env w fd ne)))"
proof -
  let ?c = "createContact env w fd"
  let ?d = "createDeal env w (firstName fd) (lastName fd)"
  let ?a = "associateDealToContact env w (data_prop r2 ''id'') (data_prop r1 ''id'')"
  let ?cd = "\<lparr>email = email fd, firstName = firstName fd, lastName = lastName fd\<rparr>"
  let ?dd = "\<lparr>deal_id = data_prop r2 ''id'', deal_name = data_prop r2 ''name''\<rparr>"
  let ?m = "sendConfirmationEmail env w ne ?cd ?dd"
  have c: "?c = (fst ?c, Inr r1)"
    using assms(2) by (simp add: prod_eq_iff)
  have d: "?d = (fst ?d, Inr r2)"
    using assms(4) by (simp add: prod_eq_iff)
  obtain r3 where a: "?a = (fst ?a, Inr r3)"
    using associateDealToContact_returns [of env w "data_prop r2 ''id''" "data_prop r1 ''id''"]
    by auto
  have m: "?m = (fst ?m, snd ?m)"
    by simp
  obtain token where tk: "to_string (getAccessToken env) = Inr token"
    unfolding getAccessToken_def using to_string_env_var by blast
  obtain deal_text where dt: "to_string (data_prop r2 ''id'') = Inr deal_text"
    using createDeal_id_prints [OF d assms(5)] by blast
  obtain contact_text where ct: "to_string (data_prop r1 ''id'') = Inr contact_text"
    using createContact_id_prints [OF c assms(3)] by blast
  have ta: "fst ?a = [Enter_associateDealToContact (data_prop r2 ''id'') (data_prop r1 ''id''),
                      Fetch (association_request token deal_text contact_text)]"
    by (rule associateDealToContact_request [OF dt ct tk])
  have fc: "filter is_association_entry (fst ?c) = []"
    using createContact_trace [of env w fd] by (auto simp: network_not_association)
  have fd: "filter is_association_entry (fst ?d) = []"
    using createDeal_trace [of env w "firstName fd" "lastName fd"]
    by (auto simp: network_not_association)
  have fm: "filter is_association_entry (fst ?m) = []"
    using sendConfirmationEmail_trace [of env w ne ?cd ?dd]
    by (auto simp: network_not_association)
  have trace: "fst (runDiagnosticFlow env w fd ne) = fst ?c @ fst ?d @ fst ?a \<or>
               fst (runDiagnosticFlow env w fd ne) = fst ?c @ fst ?d @ fst ?a @ fst ?m"
  proof (cases "success r3")
    case True
    show ?thesis
    proof (cases "snd ?m")
      case (Inl e)
      with m have me: "?m = (fst ?m, Inl e)" by simp
      show ?thesis
        by (simp only: flow_email_rejects [OF assms(1) c assms(3) d assms(5) a True me]
              fst_conv simp_thms)
    next
      case (Inr r4)
      with m have mr: "?m = (fst ?m, Inr r4)" by simp
      show ?thesis
        by (simp only: flow_completed [OF assms(1) c assms(3) d assms(5) a True mr]
              fst_conv simp_thms)
    qed
  next
    case False
    show ?thesis
      by (simp only: flow_failed_association [OF assms(1) c assms(3) d assms(5) a False]
            fst_conv simp_thms)
  qed
  have entered: "filter is_association_entry (fst (runDiagnosticFlow env w fd ne)) =
                   [Enter_associateDealToContact (data_prop r2 ''id'') (data_prop r1 ''id'')]"
    using trace by (auto simp: fc fd fm ta)
  have sent: "Fetch (association_request token deal_text contact_text)
                \<in> set (fst (runDiagnosticFlow env w fd ne))"
    using trace by (auto simp: ta)
  from entered tk dt ct sent show ?thesis by blast
qed

theorem association_called_with_returned_ids_witness:
  "truthy (getAccessToken example_env) \<and>
   success contact_ok_result \<and> success deal_ok_result \<and>
   data contact_ok_result = Some (Obj [(''id'', Str ''101''), (''email'', Str ''ada@example.com''),
                                       (''firstName'', Str ''Ada''), (''lastName'', Str ''Lovelace'')]) \<and>
   filter is_association_entry
     (fst (runDiagnosticFlow example_env
            (example_world contact_created deal_created association_made mail_accepted)
            example_form ''ops@example.com'')) =
     [Enter_associateDealToContact (Str ''202'') (Str ''101'')] \<and>
   Fetch (association_request ''pat-na1-demo'' ''202'' ''101'')
     \<in> set (fst (runDiagnosticFlow example_env
            (example_world contact_created deal_created association_made mail_accepted)
            example_form ''ops@example.com''))"
proof -
  let ?w = "example_world contact_created deal_created association_made mail_accepted"
  have tok: "truthy (getAccessToken example_env)"
    by (simp add: getAccessToken_def example_env_def)
  have c: "snd (createContact example_env ?w example_form) = Inr contact_ok_result"
    by (simp add: step_defs example_defs result_defs)
  have d: "snd (createDeal example_env ?w (firstName example_form) (lastName example_form))
             = Inr deal_ok_result"
    by (simp add: step_defs example_defs result_defs)
  have s: "success contact_ok_result" "success deal_ok_result"
    by (simp_all add: result_defs)
  have ids: "data_prop deal_ok_result ''id'' = Str ''202''"
    "data_prop contact_ok_result ''id'' = Str ''101''"
    "getAccessToken example_env = Str ''pat-na1-demo''"
    by (simp_all add: data_prop_def result_defs getAccessToken_def example_env_def)
  have dat: "data contact_ok_result =
               Some (Obj [(''id'', Str ''101''), (''email'', Str ''ada@example.com''),
                          (''firstName'', Str ''Ada''), (''lastName'', Str ''Lovelace'')])"
    by (simp add: result_defs)
  from association_called_with_returned_ids [OF tok c s(1) d s(2), of "''ops@example.com''"]
  have "filter is_association_entry
          (fst (runDiagnosticFlow example_env ?w example_form ''ops@example.com'')) =
          [Enter_associateDealToContact (Str ''202'') (Str ''101'')] \<and>
        Fetch (association_request ''pat-na1-demo'' ''202'' ''101'')
          \<in> set (fst (runDiagnosticFlow example_env ?w example_form ''ops@example.com''))"
    by (auto simp: ids)
  with tok s dat show ?thesis by simp
qed

text \<open>
  Where the flow can throw. The first three steps never do: whatever the configuration
  and the world (every outcome of \<open>fetch\<close> and of \<open>response.json()\<close>: a rejection, a
  response of any status, a body that parses to any value or fails to parse), each
  returns a result. What a step's \<open>try\<close> block throws is caught by the step and reported
  in its result: \<open>success = false\<close>, with the error's message (or the step's fallback
  text) as message. The one throw left uncaught is that of the mail client's
  constructor, called one line above the mail step's \<open>try\<close> block: in every run where it
  does not throw, the mail step and the flow return a result.
\<close>

theorem flow_throws_only_from_client_construction:
  "(\<exists>t r. createContact env w fd = (t, Inr r)) \<and>
   (\<exists>t r. createDeal env w fn ln = (t, Inr r)) \<and>
   (\<exists>t r. associateDealToContact env w d c = (t, Inr r)) \<and>
   ((truthy (env_var (RESEND_API_KEY env)) \<longrightarrow>
       new_Resend w (env_var (RESEND_API_KEY env)) = Inr ()) \<longrightarrow>
      (\<exists>t r. sendConfirmationEmail env w ta cd dd = (t, Inr r)) \<and>
      (\<exists>t r. runDiagnosticFlow env w fd ne = (t, Inr r))) \<and>
   (snd (createContact_try (getAccessToken env) w fd) = Inl e1 \<longrightarrow>
      snd (createContact env w fd) =
        Inr \<lparr>step = ''Create Contact'', success = False,
             message = error_message e1 ''Failed to create contact'', data = None\<rparr>) \<and>
   (snd (createDeal_try (getAccessToken env) w (''Diagnostic - '' @ fn @ '' '' @ ln)) = Inl e2 \<longrightarrow>
      snd (createDeal env w fn ln) =
        Inr \<lparr>step = ''Create Deal'', success = False,
             message = error_message e2 ''Failed to create deal'', data = None\<rparr>) \<and>
   (snd (associateDealToContact_try (getAccessToken env) w d c) = Inl e3 \<longrightarrow>
      snd (associateDealToContact env w d c) =
        Inr \<lparr>step = ''Associate Deal to Contact'', success = False,
             message = error_message e3 ''Failed to associate deal to contact'', data = None\<rparr>) \<and>
   (truthy (env_var (RESEND_API_KEY env)) \<and>
    new_Resend w (env_var (RESEND_API_KEY env)) = Inr () \<and>
    snd (sendConfirmationEmail_try (env_var (RESEND_API_KEY env)) w ta cd dd) = Inl e4 \<longrightarrow>
      snd (sendConfirmationEmail env w ta cd dd) =
        Inr \<lparr>step = ''Send Confirmation Email'', success = False,
             message = error_message e4 ''Failed to send email'', data = None\<rparr>)"
proof -
  have flow: "\<exists>t r. runDiagnosticFlow env w fd ne = (t, Inr r)"
    if key: "truthy (env_var (RESEND_API_KEY env)) \<longrightarrow>
               new_Resend w (env_var (RESEND_API_KEY env)) = Inr ()"
  proof -
    obtain t1 r1 t2 r2 t3 r3 where
      c: "createContact env w fd = (t1, Inr r1)" and
      d: "createDeal env w (firstName fd) (lastName fd) = (t2, Inr r2)" and
      a: "associateDealToContact env w (data_prop r2 ''id'') (data_prop r1 ''id'') = (t3, Inr r3)"
      by (rule flow_step_calls)
    obtain t4 r4 where
      m: "sendConfirmationEmail env w ne
            \<lparr>email = email fd, firstName = firstName fd, lastName = lastName fd\<rparr>
            \<lparr>deal_id = data_prop r2 ''id'', deal_name = data_prop r2 ''name''\<rparr> = (t4, Inr r4)"
      using sendConfirmationEmail_returns [OF key] by blast
    show ?thesis
    proof (cases "truthy (getAccessToken env)")
      case False
      from flow_unconfigured [OF False] show ?thesis by (intro exI)
    next
      case tok: True
      show ?thesis
      proof (cases "success r1")
        case False
        from flow_failed_contact [OF tok c False] show ?thesis by (intro exI)
      next
        case s1: True
        show ?thesis
        proof (cases "success r2")
          case False
          from flow_failed_deal [OF tok c s1 d False] show ?thesis by (intro exI)
        next
          case s2: True
          show ?thesis
          proof (cases "success r3")
            case False
            from flow_failed_association [OF tok c s1 d s2 a False] show ?thesis by (intro exI)
          next
            case s3: True
            from flow_completed [OF tok c s1 d s2 a s3 m] show ?thesis by (intro exI)
          qed
        qed
      qed
    qed
  qed
  have mail: "(truthy (env_var (RESEND_API_KEY env)) \<longrightarrow>
       new_Resend w (env_var (RESEND_API_KEY env)) = Inr ()) \<longrightarrow>
      (\<exists>t r. sendConfirmationEmail env w ta cd dd = (t, Inr r)) \<and>
      (\<exists>t r. runDiagnosticFlow env w fd ne = (t, Inr r))"
    using flow sendConfirmationEmail_returns [of env w ta cd dd] by (intro impI conjI)
  have c1: "snd (createContact_try (getAccessToken env) w fd) = Inl e1 \<longrightarrow>
      snd (createContact env w fd) =
        Inr \<lparr>step = ''Create Contact'', success = False,
             message = error_message e1 ''Failed to create contact'', data = None\<rparr>"
    unfolding createContact_def by (simp add: Let_def split: prod.split sum.split)
  have c2: "snd (createDeal_try (getAccessToken env) w (''Diagnostic - '' @ fn @ '' '' @ ln)) = Inl e2 \<longrightarrow>
      snd (createDeal env w fn ln) =
        Inr \<lparr>step = ''Create Deal'', success = False,
             message = error_message e2 ''Failed to create deal'', data = None\<rparr>"
    unfolding createDeal_def by (simp add: Let_def split: prod.split sum.split)
  have c3: "snd (associateDealToContact_try (getAccessToken env) w d c) = Inl e3 \<longrightarrow>
      snd (associateDealToContact env w d c) =
        Inr \<lparr>step = ''Associate Deal to Contact'', success = False,
             message = error_message e3 ''Failed to associate deal to contact'', data = None\<rparr>"
    unfolding associateDealToContact_def by (simp add: Let_def split: prod.split sum.split)
  have c4: "truthy (env_var (RESEND_API_KEY env)) \<and>
    new_Resend w (env_var (RESEND_API_KEY env)) = Inr () \<and>
    snd (sendConfirmationEmail_try (env_var (RESEND_API_KEY env)) w ta cd dd) = Inl e4 \<longrightarrow>
      snd (sendConfirmationEmail env w ta cd dd) =
        Inr \<lparr>step = ''Send Confirmation Email'', success = False,
             message = error_message e4 ''Failed to send email'', data = None\<rparr>"
    unfolding sendConfirmationEmail_def by (simp add: Let_def split: prod.split sum.split)
  from createContact_returns [of env w fd] createDeal_returns [of env w fn ln]
    associateDealToContact_returns [of env w d c] mail c1 c2 c3 c4
  show ?thesis by (intro conjI)
qed

theorem flow_throws_only_from_client_construction_witness:
  "new_Resend (example_world contact_created deal_unreachable association_refused_null mail_accepted)
     (env_var (RESEND_API_KEY example_env)) = Inr () \<and>
   snd (createDeal_try (getAccessToken example_env)
          (example_world contact_created deal_unreachable association_refused_null mail_accepted)
          (''Diagnostic - '' @ ''Ada'' @ '' '' @ ''Lovelace'')) = Inl (Thrown_Error ''fetch failed'') \<and>
   snd (createDeal example_env
          (example_world contact_created deal_unreachable association_refused_null mail_accepted)
          ''Ada'' ''Lovelace'') = Inr deal_unreachable_result \<and>
   snd (associateDealToContact_try (getAccessToken example_env)
          (example_world contact_created deal_unreachable association_refused_null mail_accepted)
          (Str ''202'') (Str ''101'')) = Inl (type_error_read ''null'' ''message'') \<and>
   snd (associateDealToContact example_env
          (example_world contact_created deal_unreachable association_refused_null mail_accepted)
          (Str ''202'') (Str ''101'')) = Inr association_null_result \<and>
   (\<exists>t r. runDiagnosticFlow example_env
          (example_world contact_created deal_unreachable association_refused_null mail_accepted)
          example_form ''ops@example.com'' = (t, Inr r))"
proof -
  let ?w = "example_world contact_created deal_unreachable association_refused_null mail_accepted"
  have k: "new_Resend ?w (env_var (RESEND_API_KEY example_env)) = Inr ()"
    by (simp add: example_defs)
  have d: "snd (createDeal_try (getAccessToken example_env) ?w
                  (''Diagnostic - '' @ ''Ada'' @ '' '' @ ''Lovelace'')) = Inl (Thrown_Error ''fetch failed'')"
    by (simp add: step_defs example_defs)
  have a: "snd (associateDealToContact_try (getAccessToken example_env) ?w
                  (Str ''202'') (Str ''101'')) = Inl (type_error_read ''null'' ''message'')"
    by (simp add: step_defs example_defs)
  note all = flow_throws_only_from_client_construction
      [where env = example_env and w = ?w and fd = example_form
      and ne = "''ops@example.com''" and fn = "''Ada''" and ln = "''Lovelace''"
      and d = "Str ''202''" and c = "Str ''101''"
      and ?e2.0 = "Thrown_Error ''fetch failed''"
      and ?e3.0 = "type_error_read ''null'' ''message''"]
  have rd: "snd (createDeal example_env ?w ''Ada'' ''Lovelace'') = Inr deal_unreachable_result"
    using all d by (simp add: deal_unreachable_result_def)
  have ra: "snd (associateDealToContact example_env ?w (Str ''202'') (Str ''101''))
              = Inr association_null_result"
    using all a by (simp add: association_null_result_def type_error_read_def)
  have rf: "\<exists>t r. runDiagnosticFlow example_env ?w example_form ''ops@example.com'' = (t, Inr r)"
    using all k by blast
  from k d rd a ra rf show ?thesis by (intro conjI)
qed

text \<open>
  C6. The flow is to return a result on every exit path, each error being caught at the
  step boundary, and the four steps are written to that end. The mail step misses it:
  with a mail key that the client's constructor refuses (here a key with a line feed
  inside), in a world whose three CRM calls succeed, the constructor throws above the
  step's \<open>try\<close> block, the mail step rejects, and the flow rejects with it instead of
  returning a result.
\<close>

theorem flow_rejects_when_client_constructor_throws:
  "truthy (getAccessToken mistyped_env) \<and>
   truthy (env_var (RESEND_API_KEY mistyped_env)) \<and>
   new_Resend refusing_world (env_var (RESEND_API_KEY mistyped_env)) = Inl key_refused \<and>
   snd (sendConfirmationEmail mistyped_env refusing_world ''ops@example.com''
          example_form example_deal) = Inl key_refused \<and>
   snd (runDiagnosticFlow mistyped_env refusing_world example_form ''ops@example.com'') =
     Inl key_refused \<and>
   length (filter is_network
     (fst (runDiagnosticFlow mistyped_env refusing_world example_form ''ops@example.com''))) = 3"
  by (simp add: runDiagnosticFlow_def step_defs example_defs example_deal_def)

text \<open>
  C10. A flow result that carries a summary has four step results, those of the four
  steps in order, of which the first three have \<open>success = true\<close>; the summary's
  \<open>association\<close> is \<open>"success"\<close> (the value \<open>"failed"\<close> is never produced, since a
  failed association returns without a summary); and the flow's \<open>success\<close> and the
  summary's \<open>emailSent\<close> both equal the mail step's \<open>success\<close>.
\<close>

theorem summary_means_four_steps:
  assumes "snd (runDiagnosticFlow env w fd ne) = Inr r" and "summary r = Some sm"
  shows "length (steps r) = 4 \<and>
         success (steps r ! 0) \<and> success (steps r ! 1) \<and> success (steps r ! 2) \<and>
         map step (steps r) = [''Create Contact'', ''Create Deal'',
                               ''Associate Deal to Contact'', ''Send Confirmation Email''] \<and>
         association sm = ''success'' \<and> association sm \<noteq> ''failed'' \<and>
         flow_success r = success (steps r ! 3) \<and>
         emailSent sm = success (steps r ! 3)"
proof -
  obtain t1 r1 t2 r2 t3 r3 where
    c: "createContact env w fd = (t1, Inr r1)" and
    d: "createDeal env w (firstName fd) (lastName fd) = (t2, Inr r2)" and
    a: "associateDealToContact env w (data_prop r2 ''id'') (data_prop r1 ''id'') = (t3, Inr r3)"
    by (rule flow_step_calls)
  let ?m = "sendConfirmationEmail env w ne
              \<lparr>email = email fd, firstName = firstName fd, lastName = lastName fd\<rparr>
              \<lparr>deal_id = data_prop r2 ''id'', deal_name = data_prop r2 ''name''\<rparr>"
  have tok: "truthy (getAccessToken env)"
  proof (rule ccontr)
    assume "\<not> truthy (getAccessToken env)"
    from flow_unconfigured [OF this, of w fd ne] assms show False by auto
  qed
  have s1: "success r1"
  proof (rule ccontr)
    assume "\<not> success r1"
    from flow_failed_contact [OF tok c this, of ne] assms show False by auto
  qed
  have s2: "success r2"
  proof (rule ccontr)
    assume "\<not> success r2"
    from flow_failed_deal [OF tok c s1 d this, of ne] assms show False by auto
  qed
  have s3: "success r3"
  proof (rule ccontr)
    assume "\<not> success r3"
    from flow_failed_association [OF tok c s1 d s2 a this, of ne] assms show False by auto
  qed
  obtain t4 r4 where m: "?m = (t4, Inr r4)"
  proof (cases "snd ?m")
    case (Inl e)
    then have "?m = (fst ?m, Inl e)" by (simp add: prod_eq_iff)
    from flow_email_rejects [OF tok c s1 d s2 a s3 this] assms(1) show ?thesis by simp
  next
    case (Inr r4)
    then have "?m = (fst ?m, Inr r4)" by (simp add: prod_eq_iff)
    then show ?thesis by (rule that)
  qed
  have names: "step r1 = ''Create Contact''" "step r2 = ''Create Deal''"
    "step r3 = ''Associate Deal to Contact''" "step r4 = ''Send Confirmation Email''"
    using createContact_step [OF c] createDeal_step [OF d] associateDealToContact_step [OF a]
      sendConfirmationEmail_step [OF m] by simp_all
  from flow_completed [OF tok c s1 d s2 a s3 m] assms(1)
  have r: "r = \<lparr>flow_success = success r4,
                flow_message = (if success r4 then ''Full diagnostic flow completed successfully!''
                                else ''Flow completed with some errors''),
                steps = [r1, r2, r3, r4],
                summary = Some
                  \<lparr>contact = \<lparr>contact_id = data_prop r1 ''id'', contact_email = email fd,
                              contact_firstName = firstName fd, contact_lastName = lastName fd\<rparr>,
                   deal = \<lparr>deal_id = data_prop r2 ''id'', deal_name = data_prop r2 ''name''\<rparr>,
                   association = ''success'',
                   emailSent = success r4,
                   emailId = data_prop r4 ''id''\<rparr>\<rparr>"
    by simp
  with assms(2) have sm: "association sm = ''success''" "emailSent sm = success r4"
    by auto
  have st: "steps r = [r1, r2, r3, r4]" "flow_success r = success r4"
    by (simp_all add: r)
  show ?thesis
    by (simp add: st sm s1 s2 s3 names)
qed

theorem summary_means_four_steps_witness:
  "snd (runDiagnosticFlow example_env
          (example_world contact_created deal_created association_made mail_refused)
          example_form ''ops@example.com'') =
     Inr \<lparr>flow_success = False,
          flow_message = ''Flow completed with some errors'',
          steps = [contact_ok_result, deal_ok_result, association_ok_result, mail_refused_result],
          summary = Some (example_summary False Undefined)\<rparr> \<and>
   association (example_summary False Undefined) = ''success'' \<and>
   success contact_ok_result \<and> success deal_ok_result \<and> success association_ok_result \<and>
   emailSent (example_summary False Undefined) = success mail_refused_result"
proof -
  let ?w = "example_world contact_created deal_created association_made mail_refused"
  let ?r = "\<lparr>flow_success = False,
             flow_message = ''Flow completed with some errors'',
             steps = [contact_ok_result, deal_ok_result, association_ok_result, mail_refused_result],
             summary = Some (example_summary False Undefined)\<rparr>"
  have run: "snd (runDiagnosticFlow example_env ?w example_form ''ops@example.com'') = Inr ?r"
    by (simp add: runDiagnosticFlow_def step_defs example_defs result_defs)
  have sm: "summary ?r = Some (example_summary False Undefined)"
    by simp
  from summary_means_four_steps [OF run sm] run show ?thesis
    by simp
qed

section \<open>The association step on an upstream error\<close>

lemma get_prop_defined: "v \<noteq> Null \<Longrightarrow> v \<noteq> Undefined \<Longrightarrow> get_prop v k = Inr (opt_prop v k)"
  by (cases v) simp_all

lemma associateDealToContact_refused:
  assumes "to_string dealId = Inr deal_text" and "to_string contactId = Inr contact_text"
    and "to_string (getAccessToken env) = Inr token"
    and "fetch w (association_request token deal_text contact_text) = Inr resp"
    and "\<not> ok resp"
  shows "snd (associateDealToContact env w dealId contactId) =
           (case get_prop (case json resp of Inl e \<Rightarrow> Obj [] | Inr v \<Rightarrow> v) ''message'' of
              Inl e \<Rightarrow>
                Inr \<lparr>step = ''Associate Deal to Contact'', success = False,
                     message = error_message e ''Failed to associate deal to contact'',
                     data = None\<rparr>
            | Inr m \<Rightarrow>
                Inr \<lparr>step = ''Associate Deal to Contact'', success = False,
                     message = js_or m (Str (''HubSpot API error: '' @ show_nat (status resp))),
                     data = Some (case json resp of Inl e \<Rightarrow> Obj [] | Inr v \<Rightarrow> v)\<rparr>)"
  unfolding associateDealToContact_def associateDealToContact_try_def
  by (simp add: assms Let_def split: sum.split)

text \<open>
  On a response whose status is outside 200..299 the association step returns
  \<open>success = false\<close> in every case. When the body fails to parse, the data is the empty
  object and the message the status fallback; when it parses to a value other than
  \<open>null\<close>, the data is that value and the message the body's \<open>message\<close> or the
  fallback.
\<close>

lemma association_error_status:
  assumes "to_string dealId = Inr deal_text" and "to_string contactId = Inr contact_text"
    and "to_string (getAccessToken env) = Inr token"
    and "fetch w (association_request token deal_text contact_text) = Inr resp"
    and "\<not> ok resp"
  shows "(\<forall>e. json resp = Inl e \<longrightarrow>
            snd (associateDealToContact env w dealId contactId) =
              Inr \<lparr>step = ''Associate Deal to Contact'', success = False,
                   message = Str (''HubSpot API error: '' @ show_nat (status resp)),
                   data = Some (Obj [])\<rparr>) \<and>
         (\<forall>v. json resp = Inr v \<and> v \<noteq> Null \<and> v \<noteq> Undefined \<longrightarrow>
            snd (associateDealToContact env w dealId contactId) =
              Inr \<lparr>step = ''Associate Deal to Contact'', success = False,
                   message = js_or (opt_prop v ''message'')
                               (Str (''HubSpot API error: '' @ show_nat (status resp))),
                   data = Some v\<rparr>) \<and>
         (\<exists>r. snd (associateDealToContact env w dealId contactId) = Inr r \<and>
              step r = ''Associate Deal to Contact'' \<and> \<not> success r)"
proof -
  note eq = associateDealToContact_refused [OF assms]
  have p1: "\<forall>e. json resp = Inl e \<longrightarrow>
            snd (associateDealToContact env w dealId contactId) =
              Inr \<lparr>step = ''Associate Deal to Contact'', success = False,
                   message = Str (''HubSpot API error: '' @ show_nat (status resp)),
                   data = Some (Obj [])\<rparr>"
    by (simp add: eq js_or_def)
  have p2: "\<forall>v. json resp = Inr v \<and> v \<noteq> Null \<and> v \<noteq> Undefined \<longrightarrow>
            snd (associateDealToContact env w dealId contactId) =
              Inr \<lparr>step = ''Associate Deal to Contact'', success = False,
                   message = js_or (opt_prop v ''message'')
                               (Str (''HubSpot API error: '' @ show_nat (status resp))),
                   data = Some v\<rparr>"
    by (simp add: eq get_prop_defined)
  have p4: "\<exists>r. snd (associateDealToContact env w dealId contactId) = Inr r \<and>
              step r = ''Associate Deal to Contact'' \<and> \<not> success r"
  proof (cases "get_prop (case json resp of Inl e \<Rightarrow> Obj [] | Inr v \<Rightarrow> v) ''message''")
    case (Inl e)
    show ?thesis
      by (rule exI [of _ "\<lparr>step = ''Associate Deal to Contact'', success = False,
                     message = error_message e ''Failed to associate deal to contact'',
                     data = None\<rparr>"]) (simp add: eq Inl)
  next
    case (Inr m)
    show ?thesis
      by (rule exI [of _ "\<lparr>step = ''Associate Deal to Contact'', success = False,
                     message = js_or m (Str (''HubSpot API error: '' @ show_nat (status resp))),
                     data = Some (case json resp of Inl e \<Rightarrow> Obj [] | Inr v \<Rightarrow> v)\<rparr>"])
        (simp add: eq Inr)
  qed
  from p1 p2 p4 show ?thesis by (intro conjI)
qed

lemma association_error_status_examples:
  "snd (associateDealToContact example_env
          (example_world contact_created deal_created association_refused_html mail_accepted)
          (Str ''202'') (Str ''101'')) = Inr association_html_result \<and>
   snd (associateDealToContact example_env
          (example_world contact_created deal_created association_refused_json mail_accepted)
          (Str ''202'') (Str ''101'')) = Inr association_json_result"
proof -
  let ?w1 = "example_world contact_created deal_created association_refused_html mail_accepted"
  let ?w2 = "example_world contact_created deal_created association_refused_json mail_accepted"
  let ?resp1 = "\<lparr>status = 502, json = Inl (Thrown_Error ''Unexpected token < in JSON at position 0'')\<rparr>"
  let ?resp2 = "\<lparr>status = 404, json = Inr (Obj [(''status'', Str ''error''),
                                               (''message'', Str ''Object not found'')])\<rparr>"
  have ids: "to_string (Str ''202'') = Inr ''202''" "to_string (Str ''101'') = Inr ''101''"
    by simp_all
  have tk: "to_string (getAccessToken example_env) = Inr ''pat-na1-demo''"
    by (simp add: getAccessToken_def example_env_def)
  have f1: "fetch ?w1 (association_request ''pat-na1-demo'' ''202'' ''101'') = Inr ?resp1"
    by (simp add: example_defs association_request_def)
  have f2: "fetch ?w2 (association_request ''pat-na1-demo'' ''202'' ''101'') = Inr ?resp2"
    by (simp add: example_defs association_request_def)
  have n: "\<not> ok ?resp1" "\<not> ok ?resp2"
    by (simp_all add: ok_def)
  have r1: "snd (associateDealToContact example_env ?w1 (Str ''202'') (Str ''101''))
              = Inr association_html_result"
    using association_error_status [OF ids tk f1 n(1)]
    by (simp add: association_html_result_def show_nat.simps digit_char_def)
  have r2: "snd (associateDealToContact example_env ?w2 (Str ''202'') (Str ''101''))
              = Inr association_json_result"
    using association_error_status [OF ids tk f2 n(2)]
    by (simp add: association_json_result_def js_or_def)
  from r1 r2 show ?thesis by (intro conjI)
qed

text \<open>
  C8. On a status outside 200..299 the step is to return \<open>success = false\<close> with the
  parsed body, or the empty object when the body does not parse, as data, and the lines
  that build that result are written to that end: the \<open>.catch\<close> on \<open>response.json()\<close>
  is there to make the read of \<open>data.message\<close> safe. They miss one body: on a 500
  response whose body is the JSON text \<open>null\<close> the parse succeeds, the read of
  \<open>data.message\<close> throws, and the result that comes back from the step's \<open>catch\<close> has
  no data at all and the \<open>TypeError\<close>'s text as message.
\<close>

theorem association_null_body_loses_data:
  "fetch (example_world contact_created deal_created association_refused_null mail_accepted)
     (association_request ''pat-na1-demo'' ''202'' ''101'') = Inr \<lparr>status = 500, json = Inr Null\<rparr> \<and>
   \<not> ok \<lparr>status = 500, json = Inr Null\<rparr> \<and>
   snd (associateDealToContact example_env
          (example_world contact_created deal_created association_refused_null mail_accepted)
          (Str ''202'') (Str ''101'')) =
     Inr \<lparr>step = ''Associate Deal to Contact'', success = False,
          message = Str (''Cannot read properties of null (reading '' @ [CHR 0x27] @ ''message''
                         @ [CHR 0x27] @ '')''),
          data = None\<rparr> \<and>
   fst (associateDealToContact example_env
          (example_world contact_created deal_created association_refused_null mail_accepted)
          (Str ''202'') (Str ''101'')) =
     [Enter_associateDealToContact (Str ''202'') (Str ''101''),
      Fetch (association_request ''pat-na1-demo'' ''202'' ''101'')]"
  by (simp add: step_defs example_defs type_error_read_def)

section \<open>The webhook store: bound and order\<close>

lemma POST_store:
  "fst (POST store r) =
     (case request_json r of
        Inr body_value \<Rightarrow>
          (if length store \<ge> MAX_WEBHOOKS
           then butlast (\<lparr>entry_id = random_uuid r, payload = body_value,
                          receivedAt = request_time r\<rparr> # store)
           else \<lparr>entry_id = random_uuid r, payload = body_value,
                 receivedAt = request_time r\<rparr> # store)
      | Inl error \<Rightarrow> store)"
  unfolding POST_def by (auto simp: Let_def split: sum.split)

lemma POST_take:
  "length store \<le> 5 \<Longrightarrow> fst (POST store r) = take 5 (accepted [r] @ store)"
  by (auto simp: POST_store MAX_WEBHOOKS_def butlast_conv_take split: sum.split)

lemma take_append_take: "take n (xs @ take n ys) = take n (xs @ ys)"
  by (simp add: min_def)

lemma posts_take:
  "length store \<le> 5 \<Longrightarrow> posts store rs = take 5 (rev (accepted rs) @ store)"
proof (induction rs arbitrary: store)
  case Nil
  then show ?case by simp
next
  case (Cons r rs)
  have len: "length (fst (POST store r)) \<le> 5"
    by (simp add: POST_take [OF Cons.prems])
  have "posts store (r # rs) = posts (fst (POST store r)) rs"
    by simp
  also have "\<dots> = take 5 (rev (accepted rs) @ fst (POST store r))"
    by (rule Cons.IH [OF len])
  also have "\<dots> = take 5 (rev (accepted rs) @ take 5 (accepted [r] @ store))"
    by (simp only: POST_take [OF Cons.prems])
  also have "\<dots> = take 5 (rev (accepted rs) @ accepted [r] @ store)"
    by (rule take_append_take)
  also have "\<dots> = take 5 (rev (accepted (r # rs)) @ store)"
    by (simp split: sum.split)
  finally show ?case .
qed

lemma accepted_all_parsed: "list_all parsed rs \<Longrightarrow> length (accepted rs) = length rs"
  by (induction rs) (auto simp: parsed_def split: sum.splits)

text \<open>
  C7. Starting from the empty store, after any sequence of POSTs the store holds at most
  five entries and is the five newest accepted entries, newest first (the reverse of
  their arrival order, cut after five). Six POSTs whose bodies parse leave exactly five
  entries: all but the first one posted, newest first. GET on the empty store returns
  count 0 and an empty list, and on any store the store itself with its length.
\<close>

theorem webhook_store_bounded_newest_first:
  "length (posts [] rs) \<le> 5 \<and>
   posts [] rs = take 5 (rev (accepted rs)) \<and>
   (length rs = 6 \<and> list_all parsed rs \<longrightarrow>
      length (accepted rs) = 6 \<and> length (posts [] rs) = 5 \<and>
      posts [] rs = rev (tl (accepted rs))) \<and>
   GET [] = \<lparr>get_success = True, webhooks = [], count = 0\<rparr> \<and>
   GET (posts [] rs) =
     \<lparr>get_success = True, webhooks = posts [] rs, count = length (posts [] rs)\<rparr>"
proof -
  have eq: "posts [] rs = take 5 (rev (accepted rs))"
    using posts_take [of "[]" rs] by simp
  have six: "length rs = 6 \<and> list_all parsed rs \<longrightarrow>
      length (accepted rs) = 6 \<and> length (posts [] rs) = 5 \<and>
      posts [] rs = rev (tl (accepted rs))"
  proof (intro impI, elim conjE)
    assume n: "length rs = 6" and p: "list_all parsed rs"
    have l: "length (accepted rs) = 6"
      using accepted_all_parsed [OF p] n by simp
    have "take 5 (rev (accepted rs)) = rev (drop 1 (accepted rs))"
      using l by (simp add: take_rev)
    then have "posts [] rs = rev (tl (accepted rs))"
      by (simp add: eq drop_Suc)
    with l show "length (accepted rs) = 6 \<and> length (posts [] rs) = 5 \<and>
      posts [] rs = rev (tl (accepted rs))"
      by (simp add: eq)
  qed
  from eq six show ?thesis
    by (simp add: GET_def)
qed

theorem webhook_store_bounded_newest_first_witness:
  "length [example_post 1, example_post 2, example_post 3, example_post 4, example_post 5,
           example_post 6] = 6 \<and>
   list_all parsed [example_post 1, example_post 2, example_post 3, example_post 4,
                    example_post 5, example_post 6] \<and>
   map entry_id (posts [] [example_post 1, example_post 2, example_post 3, example_post 4,
                           example_post 5, example_post 6]) =
     [''uuid-6'', ''uuid-5'', ''uuid-4'', ''uuid-3'', ''uuid-2''] \<and>
   count (GET (posts [] [example_post 1, example_post 2, example_post 3, example_post 4,
                         example_post 5, example_post 6])) = 5 \<and>
   count (GET []) = 0"
proof -
  let ?rs = "[example_post 1, example_post 2, example_post 3, example_post 4, example_post 5,
              example_post 6]"
  have n: "length ?rs = 6" by simp
  have p: "list_all parsed ?rs"
    by (simp add: parsed_def example_post_def)
  have acc: "map entry_id (rev (tl (accepted ?rs))) =
               [''uuid-6'', ''uuid-5'', ''uuid-4'', ''uuid-3'', ''uuid-2'']"
    by (simp add: example_post_def show_nat.simps digit_char_def)
  note inst = webhook_store_bounded_newest_first [of ?rs]
  from inst n p have st: "posts [] ?rs = rev (tl (accepted ?rs))" and len: "length (posts [] ?rs) = 5"
    by blast+
  from inst have g: "GET (posts [] ?rs) =
      \<lparr>get_success = True, webhooks = posts [] ?rs, count = length (posts [] ?rs)\<rparr>"
    and g0: "GET [] = \<lparr>get_success = True, webhooks = [], count = 0\<rparr>"
    by blast+
  have c: "count (GET (posts [] ?rs)) = 5"
    by (simp only: g get_response.simps len)
  have c0: "count (GET []) = 0"
    by (simp only: g0 get_response.simps)
  have ids: "map entry_id (posts [] ?rs) = [''uuid-6'', ''uuid-5'', ''uuid-4'', ''uuid-3'', ''uuid-2'']"
    by (simp only: st acc)
  from n p ids c c0 show ?thesis by (intro conjI)
qed

end
